theory Spec2Isabelle
  imports Complex_Main "HOL-Library.Word"
begin

section \<open>PCL dump: capture, job-boundary inference and render dispatch\<close>

text \<open>
  A shallow embedding of \<^verbatim>\<open>src/pcl_dump.py\<close> and of the parts of
  \<^verbatim>\<open>src/scope_dump_pro.py\<close> that differ from it
  (\<^verbatim>\<open>src/old/pcl_dump_plus.py\<close> does not parse, at its line 154, and is left out). Every function of the source that
  takes part in capture, polling, rendering or pause/resume is a HOL function on an explicit
  \<open>world\<close>: the buffer file on disk, the pause event, the serial line and the listener's
  write handle, together with the list of effects performed so far, in program order.
  What the environment decides (the exit status of a subprocess, whether a device opens,
  what the other threads do while the monitor sleeps) is a parameter.
\<close>

subsection \<open>Data\<close>

type_synonym byte = "8 word"

text \<open>The text passed to \<^verbatim>\<open>printConsole\<close>, one constructor per call site.\<close>

datatype msg =
    Waiting_for_input
  | Starting_job_processing
  | Job_complete_rendering
  | Receiving_data nat
  | Capture_paused_idle
  | ERROR_failed_to_decode nat
  | Phosphor_mode_processing
  | ERROR_phosphor
  | Rendered_launching_viewer
  | WARNING_viewer nat
  | Preview_disabled
  | Cleared_buffer_on_disk
  | Q_received
  | Goodbye
  | P_received
  | R_received
  | Params
  | Help
  | Failed_to_open_interface
  | Unable_to_continue
  | Failed_to_open_buffer_file
  | Skipping_interface
  | Executing_startup_commands
  | Sending_startup_command string
  | Resume_received_gui
  | Pause_received_gui
  | Starting_timer_thread
  | Starting_keyboard_input_thread
  | Starting_serial_listener_thread

datatype gui =
    Capture_RUNNING
  | Capture_STOPPED
  | Not_receiving
  | Receiving_bytes nat
  | Last_capture string

text \<open>
  The effects of the program. \<open>Converter c b\<close> is the conversion subprocess started with
  the shell command \<open>c\<close> while the buffer file holds \<open>b\<close>; \<open>Shell c\<close> is any other
  subprocess; \<open>Sleep s\<close> is \<^verbatim>\<open>time.sleep(s)\<close>, \<open>s\<close> in seconds.
\<close>

datatype event =
    Console msg
  | Gui gui
  | Sleep real
  | Converter string "byte list"
  | Shell string
  | NativePreview string
  | SerWrite string
  | SerRead byte
  | FileWrite byte
  | FileFlush

record world =
  buffer :: "byte list"
  buffer_exists :: bool
  serialPause :: bool
  line :: "byte list"
  dump_pos :: nat
  dump_mem :: "byte list"
  out :: "event list"

text \<open>
  \<open>buffer\<close> is the content of \<^verbatim>\<open>BUFFER_FILE\<close> and \<open>buffer_exists\<close> says whether
  the path can be opened for reading; \<open>serialPause\<close> is the event of that name;
  \<open>line\<close> holds the bytes the device will deliver, in order; \<open>dump_pos\<close> is the offset of
  the listener's handle \<^verbatim>\<open>dumpfile\<close> (opened with mode \<^verbatim>\<open>"wb"\<close>, so not in append
  mode) and \<open>dump_mem\<close> the bytes written to that handle and not yet flushed.
\<close>

datatype exn = NameError string | FileNotFoundError | PreviewError

datatype result = Ok world | Raise exn world | Exit nat world

fun andThen :: "result \<Rightarrow> (world \<Rightarrow> result) \<Rightarrow> result" where
  "andThen (Ok w) f = f w"
| "andThen (Raise e w) f = Raise e w"
| "andThen (Exit n w) f = Exit n w"

fun final :: "result \<Rightarrow> world" where
  "final (Ok w) = w"
| "final (Raise e w) = w"
| "final (Exit n w) = w"

fun is_Ok :: "result \<Rightarrow> bool" where
  "is_Ok (Ok w) = True"
| "is_Ok (Raise e w) = False"
| "is_Ok (Exit n w) = False"

record config =
  SERIAL_PORT :: string
  SERIAL_IGNORE :: bool
  BUFFER_FILE :: string
  KEEP_BUFFER :: bool
  TIMEOUT_S :: nat
  PCL_BINARY :: string
  PCL_ARGS :: string
  FILE_DIR :: string
  FILE_BASENAME :: string
  FILE_VIEWER :: string
  CONV_FORMAT :: string
  PNG_PHOSPHOR :: bool
  PNG_PHOSPHOR_CMD :: string
  PNG_PHOSPHOR_ARGS :: string
  PREVIEW :: bool
  PREVIEW_NATIVE :: bool
  COMMANDS_STARTUP :: "string list"
  COMMANDS_DELAY :: real

definition CR :: char where "CR = CHR 0x0D"
definition LF :: char where "LF = CHR 0x0A"

text \<open>
  The configuration block of \<^verbatim>\<open>pcl_dump.py\<close> (lines 30 to 48). \<^verbatim>\<open>FILE_DIR\<close> is read
  from the process environment and is a parameter here; \<^verbatim>\<open>PREVIEW_NATIVE\<close> exists only in
  the Pro variant and is not read by \<^verbatim>\<open>pcl_dump.py\<close>.
\<close>

definition default_config :: "string \<Rightarrow> config" where
  "default_config home = \<lparr>
     SERIAL_PORT = ''/dev/ttyUSB0'',
     SERIAL_IGNORE = False,
     BUFFER_FILE = ''/tmp/scope.dump'',
     KEEP_BUFFER = False,
     TIMEOUT_S = 2,
     PCL_BINARY = ''/usr/local/bin/gpcl6'',
     PCL_ARGS = ''-sDEVICE=pdfwrite -o '',
     FILE_DIR = home,
     FILE_BASENAME = ''scope_output_'',
     FILE_VIEWER = ''firefox'',
     CONV_FORMAT = ''pdf'',
     PNG_PHOSPHOR = True,
     PNG_PHOSPHOR_CMD = ''/usr/bin/convert'',
     PNG_PHOSPHOR_ARGS = ''-alpha off -fill '' @ [CHR 0x22] @ ''#00EE00'' @ [CHR 0x22]
        @ '' -draw '' @ [CHR 0x27] @ ''color 0,0 replace'' @ [CHR 0x27]
        @ '' +level-colors green,black -auto-level'',
     PREVIEW = True,
     PREVIEW_NATIVE = False,
     COMMANDS_STARTUP = [''++srqauto 1'' @ [CR, LF], ''++read'' @ [CR, LF], ''++read'' @ [CR, LF]],
     COMMANDS_DELAY = 12 / 10 \<rparr>"

subsection \<open>Console, sleep, file size\<close>

text \<open>
  \<^verbatim>\<open>printConsole\<close> (lines 122 to 147) pads the text to the terminal width and chooses the
  line ending; the layout is not modelled, the call is recorded with its text.
\<close>

definition printConsole :: "msg \<Rightarrow> world \<Rightarrow> world" where
  "printConsole m w = w\<lparr>out := out w @ [Console m]\<rparr>"

definition sleep :: "real \<Rightarrow> world \<Rightarrow> world" where
  "sleep s w = w\<lparr>out := out w @ [Sleep s]\<rparr>"

definition emit :: "event \<Rightarrow> world \<Rightarrow> world" where
  "emit e w = w\<lparr>out := out w @ [e]\<rparr>"

text \<open>\<^verbatim>\<open>getSize\<close> (lines 55 to 58): seek to the end and tell.\<close>

definition getSize :: "byte list \<Rightarrow> nat" where
  "getSize f = length f"

subsection \<open>Renderer: \<^verbatim>\<open>renderFile\<close> and \<^verbatim>\<open>clearBuffer\<close>\<close>

text \<open>
  What the environment decides during one call of \<^verbatim>\<open>renderFile\<close>: the formatted time,
  the exit status of the conversion command, whether \<^verbatim>\<open>subprocess.run\<close> of the phosphor
  command raises \<^verbatim>\<open>OSError\<close>, the exit status of the viewer command, and (Pro variant)
  whether the native preview window raises.
\<close>

record render_env =
  now :: string
  render_status :: nat
  phosphor_oserror :: bool
  viewer_status :: nat
  preview_raises :: bool

definition file_name_of :: "config \<Rightarrow> string \<Rightarrow> string" where
  "file_name_of cfg t = FILE_DIR cfg @ ''/'' @ FILE_BASENAME cfg @ t @ ''.'' @ CONV_FORMAT cfg"

definition render_command :: "config \<Rightarrow> string \<Rightarrow> string" where
  "render_command cfg t =
     PCL_BINARY cfg @ '' '' @ PCL_ARGS cfg @ '' '' @ file_name_of cfg t @ '' '' @ BUFFER_FILE cfg"

definition phosphor_command :: "config \<Rightarrow> string \<Rightarrow> string" where
  "phosphor_command cfg t =
     PNG_PHOSPHOR_CMD cfg @ '' '' @ file_name_of cfg t @ '' '' @ PNG_PHOSPHOR_ARGS cfg
       @ '' '' @ file_name_of cfg t"

definition viewer_command :: "config \<Rightarrow> string \<Rightarrow> string" where
  "viewer_command cfg t = FILE_VIEWER cfg @ '' '' @ file_name_of cfg t"

text \<open>
  The three steps of \<^verbatim>\<open>renderFile\<close> (lines 87 to 108), in the order of the source.
  \<^verbatim>\<open>subprocess.check_output\<close> raises \<^verbatim>\<open>CalledProcessError\<close> exactly when the exit
  status is not zero (with \<^verbatim>\<open>shell=True\<close> a binary that cannot be started is the
  shell's status 127); the handler prints and execution goes on with the next statement.
\<close>

definition render_convert :: "config \<Rightarrow> render_env \<Rightarrow> world \<Rightarrow> world" where
  "render_convert cfg env w =
     (let w1 = emit (Converter (render_command cfg (now env)) (buffer w)) w
      in if render_status env \<noteq> 0
         then printConsole (ERROR_failed_to_decode (render_status env)) w1
         else w1)"

definition render_phosphor :: "config \<Rightarrow> render_env \<Rightarrow> world \<Rightarrow> world" where
  "render_phosphor cfg env w =
     (if CONV_FORMAT cfg = ''png'' \<and> PNG_PHOSPHOR cfg then
        (let w1 = printConsole Phosphor_mode_processing w;
             w2 = emit (Shell (phosphor_command cfg (now env))) w1
         in if phosphor_oserror env then printConsole ERROR_phosphor w2 else w2)
      else w)"

definition launch_viewer :: "config \<Rightarrow> render_env \<Rightarrow> world \<Rightarrow> world" where
  "launch_viewer cfg env w =
     (let w1 = printConsole Rendered_launching_viewer w;
          w2 = emit (Shell (viewer_command cfg (now env))) w1
      in if viewer_status env \<noteq> 0
         then printConsole (WARNING_viewer (viewer_status env)) w2
         else w2)"

definition render_preview :: "config \<Rightarrow> render_env \<Rightarrow> world \<Rightarrow> world" where
  "render_preview cfg env w =
     (if PREVIEW cfg then launch_viewer cfg env w
      else printConsole Preview_disabled w)"

definition renderFile :: "config \<Rightarrow> render_env \<Rightarrow> world \<Rightarrow> world" where
  "renderFile cfg env w =
     render_preview cfg env (render_phosphor cfg env (render_convert cfg env w))"

text \<open>
  \<^verbatim>\<open>clearBuffer\<close> (lines 111 to 119). With \<^verbatim>\<open>KEEP_BUFFER\<close> it returns at once.
  Otherwise it opens the file for reading, which raises when the file is absent, and
  truncates it when its size is not zero.
\<close>

definition clearBuffer :: "config \<Rightarrow> world \<Rightarrow> result" where
  "clearBuffer cfg w =
     (if KEEP_BUFFER cfg then Ok w
      else if \<not> buffer_exists w then Raise FileNotFoundError w
      else if getSize (buffer w) \<noteq> 0
           then Ok (printConsole Cleared_buffer_on_disk (w\<lparr>buffer := []\<rparr>))
           else Ok w)"

subsection \<open>JobMonitor: \<^verbatim>\<open>timerRun\<close>\<close>

text \<open>
  One pass through the body of the loop of \<^verbatim>\<open>timerRun\<close> (lines 63 to 84), in two
  parts. \<open>timer_sleep\<close> is lines 67 to 69: the report when the first sample is zero, and
  the sleep. The other threads run while this one sleeps: \<open>conc\<close> is what they do to the
  world during \<^verbatim>\<open>time.sleep(TIMEOUT_S)\<close>. \<open>timer_decide\<close> is lines 70 to 81: the second
  sample and the decision. The read handle stays open across the sleep, so the second
  sample is the size of the same file.
\<close>

definition timer_sleep :: "config \<Rightarrow> (world \<Rightarrow> world) \<Rightarrow> world \<Rightarrow> world" where
  "timer_sleep cfg conc w =
     conc (sleep (real (TIMEOUT_S cfg))
       (if getSize (buffer w) = 0 then printConsole Waiting_for_input w else w))"

definition timer_decide :: "config \<Rightarrow> render_env \<Rightarrow> nat \<Rightarrow> world \<Rightarrow> result" where
  "timer_decide cfg env size_first_check w2 =
     (let size_last_check = getSize (buffer w2)
      in if size_last_check \<noteq> 0 then
           (let w3 = (if size_first_check = 0
                      then printConsole Starting_job_processing w2 else w2)
            in if size_last_check = size_first_check then
                 clearBuffer cfg (renderFile cfg env (printConsole Job_complete_rendering w3))
               else Ok (printConsole (Receiving_data size_last_check) w3))
         else Ok w2)"

definition timerRun_iter ::
  "config \<Rightarrow> render_env \<Rightarrow> (world \<Rightarrow> world) \<Rightarrow> world \<Rightarrow> result" where
  "timerRun_iter cfg env conc w =
     (if \<not> serialPause w then
        (if \<not> buffer_exists w then Raise FileNotFoundError w
         else timer_decide cfg env (getSize (buffer w)) (timer_sleep cfg conc w))
      else Ok (printConsole Capture_paused_idle (sleep (2 / 10) w)))"

text \<open>
  The loop itself never ends (\<^verbatim>\<open>timer_runs\<close> is set once and never cleared); it is run
  here for as many cycles as the list supplies, and stops when a cycle raises.
\<close>

fun timerRun :: "config \<Rightarrow> (render_env \<times> (world \<Rightarrow> world)) list \<Rightarrow> world \<Rightarrow> result" where
  "timerRun cfg [] w = Ok w"
| "timerRun cfg ((env, conc) # cs) w = andThen (timerRun_iter cfg env conc w) (timerRun cfg cs)"

subsection \<open>Controller: \<^verbatim>\<open>handleInput\<close>\<close>

text \<open>\<^verbatim>\<open>char.lower()\<close> on the one character \<^verbatim>\<open>getCh\<close> returns.\<close>

definition lower :: "char \<Rightarrow> char" where
  "lower c =
     (case map_of (zip ''ABCDEFGHIJKLMNOPQRSTUVWXYZ'' ''abcdefghijklmnopqrstuvwxyz'') c of
        None \<Rightarrow> c
      | Some l \<Rightarrow> l)"

text \<open>
  \<^verbatim>\<open>displayParams\<close> (lines 251 to 261) and \<^verbatim>\<open>displayHelp\<close> (lines 264 to 270) only
  print; each is recorded as one console entry.
\<close>

definition displayParams :: "world \<Rightarrow> world" where
  "displayParams w = sleep (3 / 10) (printConsole Params w)"

definition displayHelp :: "world \<Rightarrow> world" where
  "displayHelp w = printConsole Help w"

text \<open>
  The reaction of \<^verbatim>\<open>handleInput\<close> (lines 161 to 184) to one key: a chain of
  \<^verbatim>\<open>if\<close> statements, none of them \<^verbatim>\<open>elif\<close>. The test \<^verbatim>\<open>char == "F1"\<close> compares
  one character with a string of two and is never true.
\<close>

definition key_q :: "world \<Rightarrow> result" where
  "key_q w = Exit 0 (printConsole Goodbye (sleep (5 / 10) (printConsole Q_received w)))"

definition key_p :: "world \<Rightarrow> world" where
  "key_p w = (printConsole P_received w)\<lparr>serialPause := True\<rparr>"

definition key_r :: "config \<Rightarrow> world \<Rightarrow> result" where
  "key_r cfg w =
     andThen (clearBuffer cfg (printConsole R_received w))
       (\<lambda>w1. Ok (w1\<lparr>serialPause := False\<rparr>))"

text \<open>
  The key \<^verbatim>\<open>r\<close> (lines 176 to 178) with the other threads running between the return of
  \<^verbatim>\<open>clearBuffer\<close> and \<^verbatim>\<open>serialPause.clear()\<close>: \<open>conc\<close> is what they do there.
\<close>

definition resume_with :: "config \<Rightarrow> (world \<Rightarrow> world) \<Rightarrow> world \<Rightarrow> result" where
  "resume_with cfg conc w =
     andThen (clearBuffer cfg (printConsole R_received w))
       (\<lambda>w1. Ok ((conc w1)\<lparr>serialPause := False\<rparr>))"

definition handleInput_key :: "config \<Rightarrow> char \<Rightarrow> world \<Rightarrow> result" where
  "handleInput_key cfg char w =
     andThen (if lower char = CHR ''q'' then key_q w else Ok w) (\<lambda>w1.
     andThen (Ok (if lower char = CHR ''p'' then key_p w1 else w1)) (\<lambda>w2.
     andThen (if lower char = CHR ''r'' then key_r cfg w2 else Ok w2) (\<lambda>w3.
     andThen (Ok (if lower char = CHR ''i'' then displayParams w3 else w3)) (\<lambda>w4.
     Ok (if lower char = CHR ''h'' then displayHelp w4 else w4)))))"

fun handleInput :: "config \<Rightarrow> char list \<Rightarrow> world \<Rightarrow> result" where
  "handleInput cfg [] w = Ok w"
| "handleInput cfg (c # cs) w = andThen (handleInput_key cfg c w) (handleInput cfg cs)"

subsection \<open>ByteSource: the capture loop\<close>

text \<open>
  The three statements of the loop body (\<^verbatim>\<open>pcl_dump.py\<close> lines 243 to 246,
  \<^verbatim>\<open>scope_dump_pro.py\<close> lines 282 to 285). \<^verbatim>\<open>ser.read(1)\<close> has no timeout: it
  returns the next byte of the line, and does not return while there is none.
  \<^verbatim>\<open>dumpfile.write\<close> puts the byte into the handle's memory and \<^verbatim>\<open>dumpfile.flush\<close>
  writes that memory to the file at the handle's offset.
\<close>

definition ser_read :: "world \<Rightarrow> (byte \<times> world) option" where
  "ser_read w =
     (case line w of
        [] \<Rightarrow> None
      | b # bs \<Rightarrow> Some (b, emit (SerRead b) (w\<lparr>line := bs\<rparr>)))"

definition dump_write :: "byte \<Rightarrow> world \<Rightarrow> world" where
  "dump_write b w = emit (FileWrite b) (w\<lparr>dump_mem := dump_mem w @ [b]\<rparr>)"

definition pwrite :: "byte list \<Rightarrow> nat \<Rightarrow> byte list \<Rightarrow> byte list" where
  "pwrite f pos bs =
     (if bs = [] then f
      else take pos f @ replicate (pos - length f) 0 @ bs @ drop (pos + length bs) f)"

definition dump_flush :: "world \<Rightarrow> world" where
  "dump_flush w =
     emit FileFlush
       (w\<lparr>buffer := pwrite (buffer w) (dump_pos w) (dump_mem w),
          dump_pos := dump_pos w + length (dump_mem w),
          dump_mem := []\<rparr>)"

text \<open>
  The pass once the gate test of line 242 is behind it: lines 243 to 246. This is where
  the listener waits for as long as the line is silent, and nothing in these lines looks
  at the pause event again: a listener that is waiting in its read when the event is set
  still takes the next byte, writes it and flushes it. \<open>None\<close> when the read does not
  return.
\<close>

definition read_pass :: "world \<Rightarrow> world option" where
  "read_pass w =
     (case ser_read w of
        None \<Rightarrow> None
      | Some (databyte, w1) \<Rightarrow> Some (dump_flush (dump_write databyte w1)))"

text \<open>One pass through the loop body, from the gate test on.\<close>

definition listen_iter :: "world \<Rightarrow> world option" where
  "listen_iter w = (if \<not> serialPause w then read_pass w else Some w)"

text \<open>
  What a listener that is already waiting in its read does to the world when the next
  byte arrives (nothing, as long as none does).
\<close>

definition waiting_read :: "world \<Rightarrow> world" where
  "waiting_read w = (case read_pass w of None \<Rightarrow> w | Some w1 \<Rightarrow> w1)"

text \<open>
  \<^verbatim>\<open>while True\<close>: the loop is run for at most \<open>n\<close> passes and stays where the read
  blocks.
\<close>

fun listen_loop :: "nat \<Rightarrow> world \<Rightarrow> world" where
  "listen_loop 0 w = w"
| "listen_loop (Suc n) w = (case listen_iter w of None \<Rightarrow> w | Some w1 \<Rightarrow> listen_loop n w1)"

subsection \<open>ByteSource: \<^verbatim>\<open>listenSerial\<close> of \<^verbatim>\<open>pcl_dump.py\<close>\<close>

text \<open>
  The names bound at module level in \<^verbatim>\<open>pcl_dump.py\<close> (imports, configuration, the two
  globals of lines 51 and 52, and every \<^verbatim>\<open>def\<close>), and the names bound inside
  \<^verbatim>\<open>listenSerial\<close>. No statement of the file assigns any other module-level name.
\<close>

definition pcl_dump_globals :: "string list" where
  "pcl_dump_globals =
     [''serial'', ''time'', ''datetime'', ''os'', ''argparse'', ''Thread'', ''Event'',
      ''subprocess'', ''sys'', ''termios'', ''tty'',
      ''SERIAL_PORT'', ''SERIAL_RATE'', ''SERIAL_IGNORE'', ''BUFFER_FILE'', ''KEEP_BUFFER'',
      ''TIMEOUT_S'', ''PCL_BINARY'', ''PCL_ARGS'', ''FILE_DIR'', ''FILE_BASENAME'',
      ''FILE_VIEWER'', ''CONV_FORMAT'', ''PNG_PHOSPHOR'', ''PNG_PHOSPHOR_CMD'',
      ''PNG_PHOSPHOR_ARGS'', ''PREVIEW'', ''COMMANDS_STARTUP'', ''COMMANDS_DELAY'',
      ''serialPause'', ''version'',
      ''getSize'', ''timerRun'', ''renderFile'', ''clearBuffer'', ''printConsole'', ''getCh'',
      ''handleInput'', ''handleArgs'', ''listenSerial'', ''displayParams'', ''displayHelp'',
      ''displayVersion'', ''main'']"

definition listenSerial_locals :: "string list" where
  "listenSerial_locals = [''serialPause'', ''ser'', ''err'', ''command'', ''dumpfile'', ''databyte'']"

text \<open>Evaluating a name that is bound nowhere raises \<^verbatim>\<open>NameError\<close>.\<close>

definition name_lookup :: "string list \<Rightarrow> string \<Rightarrow> world \<Rightarrow> result" where
  "name_lookup names n w = (if n \<in> set names then Ok w else Raise (NameError n) w)"

definition strip_crlf :: "string \<Rightarrow> string" where
  "strip_crlf command = filter (\<lambda>c. c \<noteq> LF) (filter (\<lambda>c. c \<noteq> CR) command)"

record listen_env =
  serial_opens :: bool
  dumpfile_opens :: bool

definition exit_serial_failure :: "world \<Rightarrow> result" where
  "exit_serial_failure w =
     Exit 5 (printConsole Goodbye
              (printConsole Unable_to_continue (printConsole Failed_to_open_interface w)))"

definition exit_buffer_failure :: "world \<Rightarrow> result" where
  "exit_buffer_failure w =
     Exit 5 (printConsole Goodbye
              (printConsole Unable_to_continue (printConsole Failed_to_open_buffer_file w)))"

text \<open>
  Lines 228 to 231: the loop over \<^verbatim>\<open>COMMANDS_STARTUP\<close>, for the names \<open>names\<close> in
  scope; in \<^verbatim>\<open>pcl_dump.py\<close> these are the names listed above.
\<close>

fun send_startup_in :: "string list \<Rightarrow> real \<Rightarrow> string list \<Rightarrow> world \<Rightarrow> result" where
  "send_startup_in names d [] w = Ok w"
| "send_startup_in names d (command # cs) w =
     andThen (name_lookup names ''logger'' w) (\<lambda>w1.
       send_startup_in names d cs
         (sleep d (emit (SerWrite command)
            (printConsole (Sending_startup_command (strip_crlf command)) w1))))"

definition send_startup :: "real \<Rightarrow> string list \<Rightarrow> world \<Rightarrow> result" where
  "send_startup d cs w = send_startup_in (listenSerial_locals @ pcl_dump_globals) d cs w"

text \<open>Opening the buffer file with mode \<^verbatim>\<open>"wb"\<close> creates or truncates it.\<close>

definition open_dumpfile :: "world \<Rightarrow> world" where
  "open_dumpfile w = w\<lparr>buffer := [], buffer_exists := True, dump_pos := 0, dump_mem := []\<rparr>"

text \<open>\<^verbatim>\<open>listenSerial\<close> (lines 216 to 248).\<close>

definition listenSerial :: "config \<Rightarrow> listen_env \<Rightarrow> nat \<Rightarrow> world \<Rightarrow> result" where
  "listenSerial cfg env n w =
     (if \<not> SERIAL_IGNORE cfg then
        (if \<not> serial_opens env then exit_serial_failure w
         else
           andThen (name_lookup (listenSerial_locals @ pcl_dump_globals) ''logger'' w) (\<lambda>w1.
           andThen (send_startup (COMMANDS_DELAY cfg) (COMMANDS_STARTUP cfg)
                      (printConsole Executing_startup_commands w1)) (\<lambda>w2.
           if \<not> dumpfile_opens env then exit_buffer_failure w2
           else Ok (listen_loop n (open_dumpfile w2)))))
      else Ok (printConsole Skipping_interface w))"

subsection \<open>The Pro variant, \<^verbatim>\<open>scope_dump_pro.py\<close>\<close>

text \<open>The configuration block of the Pro variant (lines 47 to 70), where it differs.\<close>

definition pro_default_config :: "string \<Rightarrow> config" where
  "pro_default_config home = (default_config home)\<lparr>
     SERIAL_PORT := ''/dev/ttyACM1'',
     PNG_PHOSPHOR_ARGS := ''-alpha on -fill '' @ [CHR 0x22] @ ''#00EE00'' @ [CHR 0x22]
        @ '' -draw '' @ [CHR 0x27] @ ''color 0,0 replace'' @ [CHR 0x27]
        @ '' +level-colors green,black -auto-level'',
     PREVIEW_NATIVE := True \<rparr>"

text \<open>\<^verbatim>\<open>SerialListener.__init__\<close> (lines 238 to 250) opens the serial port.\<close>

definition pro_SerialListener_init :: "config \<Rightarrow> listen_env \<Rightarrow> world \<Rightarrow> result" where
  "pro_SerialListener_init cfg env w =
     (if \<not> SERIAL_IGNORE cfg then
        (if \<not> serial_opens env then exit_serial_failure w else Ok w)
      else Ok w)"

text \<open>\<^verbatim>\<open>SerialListener.sendMessage\<close> (lines 265 to 267).\<close>

definition pro_sendMessage :: "config \<Rightarrow> string \<Rightarrow> world \<Rightarrow> world" where
  "pro_sendMessage cfg command w =
     (if \<not> SERIAL_IGNORE cfg then emit (SerWrite command) w else w)"

text \<open>The startup commands of \<^verbatim>\<open>main\<close> (lines 714 to 720).\<close>

fun pro_send_startup :: "config \<Rightarrow> string list \<Rightarrow> world \<Rightarrow> world" where
  "pro_send_startup cfg [] w = w"
| "pro_send_startup cfg (command # cs) w =
     pro_send_startup cfg cs
       (pro_sendMessage cfg command
          (printConsole (Sending_startup_command (strip_crlf command))
             (sleep (COMMANDS_DELAY cfg) w)))"

definition pro_startup :: "config \<Rightarrow> world \<Rightarrow> world" where
  "pro_startup cfg w =
     (if \<not> SERIAL_IGNORE cfg
      then pro_send_startup cfg (COMMANDS_STARTUP cfg) (printConsole Executing_startup_commands w)
      else w)"

text \<open>\<^verbatim>\<open>SerialListener.listenSerial\<close> (lines 270 to 287).\<close>

definition pro_listenSerial :: "config \<Rightarrow> listen_env \<Rightarrow> nat \<Rightarrow> world \<Rightarrow> result" where
  "pro_listenSerial cfg env n w =
     (if \<not> SERIAL_IGNORE cfg then
        (if \<not> dumpfile_opens env then exit_buffer_failure w
         else Ok (listen_loop n (open_dumpfile w)))
      else Ok (printConsole Skipping_interface w))"

text \<open>
  \<^verbatim>\<open>main\<close> (lines 697 to 735) from the serial line's point of view, in its order: it
  builds the listener (line 703), sends the startup commands (lines 714 to 720),
  announces and starts the timer, keyboard and listener threads (lines 723 to 735). The
  GUI set-up and the banner printed before the startup commands are left out, and so is
  what the timer and keyboard threads do once started: neither touches the line.
\<close>

definition pro_start_threads :: "world \<Rightarrow> world" where
  "pro_start_threads w =
     printConsole Starting_serial_listener_thread
       (printConsole Starting_keyboard_input_thread
          (printConsole Starting_timer_thread w))"

definition pro_main :: "config \<Rightarrow> listen_env \<Rightarrow> nat \<Rightarrow> world \<Rightarrow> result" where
  "pro_main cfg env n w =
     andThen (pro_SerialListener_init cfg env w) (\<lambda>w1.
       pro_listenSerial cfg env n (pro_start_threads (pro_startup cfg w1)))"

text \<open>\<^verbatim>\<open>SerialListener.startStopSerial\<close> (lines 254 to 262).\<close>

definition pro_startStopSerial :: "config \<Rightarrow> string \<Rightarrow> world \<Rightarrow> result" where
  "pro_startStopSerial cfg mode w =
     (if mode = ''start'' then
        andThen (clearBuffer cfg w)
          (\<lambda>w1. Ok (printConsole Resume_received_gui (w1\<lparr>serialPause := False\<rparr>)))
      else if mode = ''stop'' then
        Ok (printConsole Pause_received_gui (w\<lparr>serialPause := True\<rparr>))
      else Ok w)"

text \<open>
  The mode \<^verbatim>\<open>start\<close> (lines 257 to 259) with the other threads running between the
  return of \<^verbatim>\<open>clearBuffer\<close> and \<^verbatim>\<open>serialPause.clear()\<close>.
\<close>

definition pro_start_with :: "config \<Rightarrow> (world \<Rightarrow> world) \<Rightarrow> world \<Rightarrow> result" where
  "pro_start_with cfg conc w =
     andThen (clearBuffer cfg w)
       (\<lambda>w1. Ok (printConsole Resume_received_gui ((conc w1)\<lparr>serialPause := False\<rparr>)))"

text \<open>
  \<^verbatim>\<open>Trace.renderFile\<close> (lines 341 to 371). The status line shows the instant of the file
  name, formatted with a space where the file name has its underscore.
\<close>

definition status_time :: "string \<Rightarrow> string" where
  "status_time t = map (\<lambda>c. if c = CHR ''_'' then CHR '' '' else c) t"

definition pro_render_preview :: "config \<Rightarrow> render_env \<Rightarrow> world \<Rightarrow> result" where
  "pro_render_preview cfg env w =
     (if PREVIEW cfg \<and> \<not> PREVIEW_NATIVE cfg then Ok (launch_viewer cfg env w)
      else if PREVIEW_NATIVE cfg then
        (if CONV_FORMAT cfg = ''png'' \<or> CONV_FORMAT cfg = ''pdf'' then
           (let w1 = emit (NativePreview (file_name_of cfg (now env))) w
            in if preview_raises env then Raise PreviewError w1 else Ok w1)
         else Ok w)
      else Ok (printConsole Preview_disabled w))"

definition pro_renderFile :: "config \<Rightarrow> render_env \<Rightarrow> world \<Rightarrow> result" where
  "pro_renderFile cfg env w =
     pro_render_preview cfg env
       (render_phosphor cfg env
          (render_convert cfg env (emit (Gui (Last_capture (status_time (now env)))) w)))"

text \<open>\<^verbatim>\<open>SerialListener.timerRun\<close> (lines 296 to 324), in the same two parts.\<close>

definition pro_timer_sleep :: "config \<Rightarrow> (world \<Rightarrow> world) \<Rightarrow> world \<Rightarrow> world" where
  "pro_timer_sleep cfg conc w =
     conc (sleep (real (TIMEOUT_S cfg))
       (if getSize (buffer w) = 0
        then emit (Gui Not_receiving) (printConsole Waiting_for_input w) else w))"

definition pro_timer_decide :: "config \<Rightarrow> render_env \<Rightarrow> nat \<Rightarrow> world \<Rightarrow> result" where
  "pro_timer_decide cfg env size_first_check w2 =
     (let size_last_check = getSize (buffer w2)
      in if size_last_check \<noteq> 0 then
           (let w3 = (if size_first_check = 0
                      then printConsole Starting_job_processing w2 else w2)
            in if size_last_check = size_first_check then
                 andThen (pro_renderFile cfg env (printConsole Job_complete_rendering w3))
                   (clearBuffer cfg)
               else Ok (emit (Gui (Receiving_bytes size_last_check))
                          (printConsole (Receiving_data size_last_check) w3)))
         else Ok w2)"

definition pro_timerRun_iter ::
  "config \<Rightarrow> render_env \<Rightarrow> (world \<Rightarrow> world) \<Rightarrow> world \<Rightarrow> result" where
  "pro_timerRun_iter cfg env conc w =
     (if \<not> serialPause w then
        (let w0 = emit (Gui Capture_RUNNING) w
         in if \<not> buffer_exists w0 then Raise FileNotFoundError w0
            else pro_timer_decide cfg env (getSize (buffer w0)) (pro_timer_sleep cfg conc w0))
      else Ok (printConsole Capture_paused_idle
                 (emit (Gui Capture_STOPPED) (sleep (2 / 10) w))))"

subsection \<open>Observations on a run\<close>

text \<open>The inputs handed to the converter, in order: one entry per completed job.\<close>

fun converter_runs :: "event list \<Rightarrow> byte list list" where
  "converter_runs [] = []"
| "converter_runs (Converter c b # es) = b # converter_runs es"
| "converter_runs (e # es) = converter_runs es"

text \<open>The strings written to the serial line, in order.\<close>

fun serial_writes :: "event list \<Rightarrow> string list" where
  "serial_writes [] = []"
| "serial_writes (SerWrite c # es) = c # serial_writes es"
| "serial_writes (e # es) = serial_writes es"

text \<open>The effects a step added to the run.\<close>

definition new_out :: "world \<Rightarrow> world \<Rightarrow> event list" where
  "new_out w w' = drop (length (out w)) (out w')"

subsection \<open>Timed appends\<close>

text \<open>
  The setting of the timing properties: each append to the buffer file is a pair of the
  time at which the byte reached the file and the byte. \<open>bytes_by as t\<close> is what the file
  holds at time \<open>t\<close> when it was empty before the first append, \<open>gaps_below T ts\<close> says
  that the times \<open>ts\<close> do not decrease and that consecutive ones are less than \<open>T\<close>
  apart, and \<open>appends_between as a b\<close> is what the appends do to the world after time
  \<open>a\<close> and up to time \<open>b\<close>.
\<close>

definition bytes_by :: "(real \<times> byte) list \<Rightarrow> real \<Rightarrow> byte list" where
  "bytes_by as t = map snd (filter (\<lambda>p. fst p \<le> t) as)"

fun gaps_below :: "real \<Rightarrow> real list \<Rightarrow> bool" where
  "gaps_below T [] = True"
| "gaps_below T [x] = True"
| "gaps_below T (x # y # ts) = (x \<le> y \<and> y - x < T \<and> gaps_below T (y # ts))"

definition appends_between :: "(real \<times> byte) list \<Rightarrow> real \<Rightarrow> real \<Rightarrow> world \<Rightarrow> world" where
  "appends_between as a b w =
     w\<lparr>buffer := buffer w @ map snd (filter (\<lambda>p. a < fst p \<and> fst p \<le> b) as)\<rparr>"

subsection \<open>Sample worlds\<close>

definition world_with :: "byte list \<Rightarrow> world" where
  "world_with bs =
     \<lparr>buffer = bs, buffer_exists = True, serialPause = False, line = [],
      dump_pos = length bs, dump_mem = [], out = []\<rparr>"

text \<open>Three appends, at 1 s, 2 s and 3.5 s.\<close>

definition sample_appends :: "(real \<times> byte) list" where
  "sample_appends = [(1, 10), (2, 20), (7 / 2, 30)]"

definition env_ok :: render_env where
  "env_ok = \<lparr>now = ''2024-05-01_12:00:00'', render_status = 0, phosphor_oserror = False,
             viewer_status = 0, preview_raises = False\<rparr>"

definition env_failed :: render_env where
  "env_failed = env_ok\<lparr>render_status := 1\<rparr>"


definition keep_config :: config where
  "keep_config = (default_config ''/home/user'')\<lparr>KEEP_BUFFER := True\<rparr>"

section \<open>Properties\<close>

subsection \<open>Effects of the single steps\<close>

lemma converter_runs_append: "converter_runs (xs @ ys) = converter_runs xs @ converter_runs ys"
  by (induction xs rule: converter_runs.induct) simp_all

lemma out_printConsole: "out (printConsole m w) = out w @ [Console m]"
  by (simp add: printConsole_def)

lemma out_emit: "out (emit e w) = out w @ [e]"
  by (simp add: emit_def)

lemma buffer_printConsole: "buffer (printConsole m w) = buffer w"
  by (simp add: printConsole_def)

lemma buffer_emit: "buffer (emit e w) = buffer w"
  by (simp add: emit_def)

lemma out_render_convert:
  "out (render_convert cfg env w) =
     out w @ Converter (render_command cfg (now env)) (buffer w)
       # (if render_status env \<noteq> 0 then [Console (ERROR_failed_to_decode (render_status env))] else [])"
  by (simp add: render_convert_def Let_def out_emit out_printConsole)

lemma converter_runs_render_phosphor:
  "converter_runs (out (render_phosphor cfg env w)) = converter_runs (out w)"
  by (simp add: render_phosphor_def Let_def out_emit out_printConsole converter_runs_append)

lemma converter_runs_render_preview:
  "converter_runs (out (render_preview cfg env w)) = converter_runs (out w)"
  by (simp add: render_preview_def launch_viewer_def Let_def out_emit out_printConsole converter_runs_append)

lemma converter_runs_renderFile:
  "converter_runs (out (renderFile cfg env w)) = converter_runs (out w) @ [buffer w]"
  by (simp add: renderFile_def converter_runs_render_phosphor converter_runs_render_preview
      out_render_convert converter_runs_append)

lemma converter_runs_clearBuffer:
  "converter_runs (out (final (clearBuffer cfg w))) = converter_runs (out w)"
  by (simp add: clearBuffer_def out_printConsole converter_runs_append)


subsection \<open>The undefined name in \<^verbatim>\<open>listenSerial\<close>\<close>

lemma listenSerial_logger:
  "\<not> SERIAL_IGNORE cfg \<Longrightarrow> serial_opens env \<Longrightarrow>
   listenSerial cfg env n w = Raise (NameError ''logger'') w"
  by (simp add: listenSerial_def name_lookup_def listenSerial_locals_def pcl_dump_globals_def)

lemma timer_decide_cases:
  "(getSize (buffer w2) = 0 \<longrightarrow> timer_decide cfg env S0 w2 = Ok w2) \<and>
   (getSize (buffer w2) \<noteq> 0 \<and> getSize (buffer w2) = S0 \<longrightarrow>
      timer_decide cfg env S0 w2
        = clearBuffer cfg (renderFile cfg env (printConsole Job_complete_rendering w2)) \<and>
      converter_runs (out (final (timer_decide cfg env S0 w2)))
        = converter_runs (out w2) @ [buffer w2]) \<and>
   (getSize (buffer w2) \<noteq> 0 \<and> getSize (buffer w2) \<noteq> S0 \<longrightarrow>
      timer_decide cfg env S0 w2
        = Ok (printConsole (Receiving_data (getSize (buffer w2)))
               (if S0 = 0 then printConsole Starting_job_processing w2 else w2)) \<and>
      converter_runs (out (final (timer_decide cfg env S0 w2))) = converter_runs (out w2))"
  by (auto simp add: timer_decide_def Let_def converter_runs_clearBuffer converter_runs_renderFile
      out_printConsole buffer_printConsole converter_runs_append)

lemma converter_runs_pro_renderFile:
  "converter_runs (out (final (pro_renderFile cfg env w))) = converter_runs (out w) @ [buffer w]"
  by (simp add: pro_renderFile_def pro_render_preview_def launch_viewer_def Let_def
      converter_runs_render_phosphor out_render_convert converter_runs_append
      out_emit out_printConsole buffer_emit)

lemma converter_runs_andThen_clearBuffer:
  "converter_runs (out (final (andThen r (clearBuffer cfg)))) = converter_runs (out (final r))"
  by (cases r) (simp_all add: converter_runs_clearBuffer)

lemma pro_timer_decide_cases:
  "(getSize (buffer w2) = 0 \<longrightarrow> pro_timer_decide cfg env S0 w2 = Ok w2) \<and>
   (getSize (buffer w2) \<noteq> 0 \<and> getSize (buffer w2) = S0 \<longrightarrow>
      pro_timer_decide cfg env S0 w2
        = andThen (pro_renderFile cfg env (printConsole Job_complete_rendering w2))
            (clearBuffer cfg) \<and>
      converter_runs (out (final (pro_timer_decide cfg env S0 w2)))
        = converter_runs (out w2) @ [buffer w2]) \<and>
   (getSize (buffer w2) \<noteq> 0 \<and> getSize (buffer w2) \<noteq> S0 \<longrightarrow>
      pro_timer_decide cfg env S0 w2
        = Ok (emit (Gui (Receiving_bytes (getSize (buffer w2))))
               (printConsole (Receiving_data (getSize (buffer w2)))
                 (if S0 = 0 then printConsole Starting_job_processing w2 else w2))) \<and>
      converter_runs (out (final (pro_timer_decide cfg env S0 w2))) = converter_runs (out w2))"
  by (auto simp add: pro_timer_decide_def Let_def converter_runs_andThen_clearBuffer
      converter_runs_pro_renderFile out_emit
      out_printConsole buffer_printConsole converter_runs_append)

subsection \<open>C10: \<^verbatim>\<open>listenSerial\<close> of \<^verbatim>\<open>pcl_dump.py\<close> stops at the name \<^verbatim>\<open>logger\<close>\<close>

text \<open>
  Claim C10. In \<^verbatim>\<open>pcl_dump.py\<close>, when serial capture is enabled and the port opens,
  \<^verbatim>\<open>listenSerial\<close> evaluates the name \<^verbatim>\<open>logger\<close>, which is bound neither in the function
  nor in the module, and raises \<^verbatim>\<open>NameError\<close>. The world at the raise is the world at
  the call: no command was written to the line, the buffer file was not opened, and
  whatever number of passes the capture loop is allowed, none runs and no byte of the line
  reaches the buffer. The first evaluation is the statement of line 227, right before the
  loop over the startup commands, so this holds for an empty command list as well.
\<close>

theorem listenSerial_raises_NameError:
  assumes "\<not> SERIAL_IGNORE cfg" and "serial_opens env"
  shows "''logger'' \<notin> set (listenSerial_locals @ pcl_dump_globals) \<and>
         listenSerial cfg env n w = Raise (NameError ''logger'') w \<and>
         buffer (final (listenSerial cfg env n w)) = buffer w \<and>
         line (final (listenSerial cfg env n w)) = line w \<and>
         out (final (listenSerial cfg env n w)) = out w"
  using assms by (simp add: listenSerial_logger listenSerial_locals_def pcl_dump_globals_def)

theorem listenSerial_raises_NameError_witness:
  "\<not> SERIAL_IGNORE (default_config ''/home/user'') \<and>
   serial_opens \<lparr>serial_opens = True, dumpfile_opens = True\<rparr> \<and>
   listenSerial (default_config ''/home/user'') \<lparr>serial_opens = True, dumpfile_opens = True\<rparr> 3
       ((world_with [])\<lparr>line := [1, 2, 3]\<rparr>)
     = Raise (NameError ''logger'') ((world_with [])\<lparr>line := [1, 2, 3]\<rparr>) \<and>
   buffer (final (listenSerial (default_config ''/home/user'')
       \<lparr>serial_opens = True, dumpfile_opens = True\<rparr> 3 ((world_with [])\<lparr>line := [1, 2, 3]\<rparr>))) = []"
proof -
  have h1: "\<not> SERIAL_IGNORE (default_config ''/home/user'')"
    by (simp add: default_config_def)
  have h2: "serial_opens \<lparr>serial_opens = True, dumpfile_opens = True\<rparr>"
    by simp
  show ?thesis
    using h1 h2 listenSerial_raises_NameError [OF h1 h2, of 3 "(world_with [])\<lparr>line := [1, 2, 3]\<rparr>"]
    by (simp add: world_with_def)
qed

lemma listenSerial_serial_failure:
  "\<not> SERIAL_IGNORE cfg \<Longrightarrow> \<not> serial_opens env \<Longrightarrow>
   listenSerial cfg env n w = exit_serial_failure w"
  by (simp add: listenSerial_def)

lemma pro_listenSerial_buffer_failure:
  "\<not> SERIAL_IGNORE cfg \<Longrightarrow> \<not> dumpfile_opens env \<Longrightarrow>
   pro_listenSerial cfg env n w = exit_buffer_failure w"
  by (simp add: pro_listenSerial_def)

subsection \<open>C8: failures at startup\<close>

text \<open>
  Claim C8, evaluated on \<^verbatim>\<open>pcl_dump.py\<close> with its own configuration. When the serial
  port cannot be opened the process reports the error, announces the shutdown and exits
  with status 5. When the port opens and the buffer file cannot be opened for writing,
  the statement that opens it is never reached: the thread ends with \<^verbatim>\<open>NameError\<close>,
  nothing is reported and the process does not exit. The Pro variant, whose
  \<^verbatim>\<open>listenSerial\<close> has no such statement in front of the open, reports and exits with
  status 5.
\<close>

theorem startup_failures:
  "listenSerial (default_config ''/home/user'') \<lparr>serial_opens = False, dumpfile_opens = True\<rparr> n
       (world_with [])
     = Exit 5 ((world_with [])\<lparr>out := [Console Failed_to_open_interface,
                 Console Unable_to_continue, Console Goodbye]\<rparr>) \<and>
   listenSerial (default_config ''/home/user'') \<lparr>serial_opens = True, dumpfile_opens = False\<rparr> n
       (world_with [])
     = Raise (NameError ''logger'') (world_with []) \<and>
   pro_listenSerial (pro_default_config ''/home/user'')
       \<lparr>serial_opens = True, dumpfile_opens = False\<rparr> n (world_with [])
     = Exit 5 ((world_with [])\<lparr>out := [Console Failed_to_open_buffer_file,
                 Console Unable_to_continue, Console Goodbye]\<rparr>)"
proof -
  have a: "\<not> SERIAL_IGNORE (default_config ''/home/user'')"
    by (simp add: default_config_def)
  have b: "\<not> SERIAL_IGNORE (pro_default_config ''/home/user'')"
    by (simp add: pro_default_config_def default_config_def)
  show ?thesis
    by (simp add: listenSerial_serial_failure [OF a] listenSerial_logger [OF a]
        pro_listenSerial_buffer_failure [OF b] exit_serial_failure_def exit_buffer_failure_def
        printConsole_def world_with_def)
qed

subsection \<open>Effects of the startup and of the renderer\<close>

lemma serial_writes_append: "serial_writes (xs @ ys) = serial_writes xs @ serial_writes ys"
  by (induction xs rule: serial_writes.induct) simp_all

lemma out_pro_send_startup:
  "\<not> SERIAL_IGNORE cfg \<Longrightarrow>
   out (pro_send_startup cfg cs w)
     = out w @ concat (map (\<lambda>c. [Sleep (COMMANDS_DELAY cfg),
                                  Console (Sending_startup_command (strip_crlf c)),
                                  SerWrite c]) cs)"
  by (induction cs arbitrary: w)
     (simp_all add: pro_sendMessage_def emit_def printConsole_def sleep_def)

lemma line_pro_send_startup: "line (pro_send_startup cfg cs w) = line w"
  by (induction cs arbitrary: w)
     (simp_all add: pro_sendMessage_def emit_def printConsole_def sleep_def)

lemma serial_writes_commands:
  "serial_writes (concat (map (\<lambda>c. [Sleep d, Console (Sending_startup_command (strip_crlf c)),
                                     SerWrite c]) cs)) = cs"
  by (induction cs) simp_all

lemma new_out_app: "out w' = out w @ es \<Longrightarrow> new_out w w' = es"
  by (simp add: new_out_def)

lemma buffer_render_phosphor: "buffer (render_phosphor cfg env w) = buffer w"
  by (simp add: render_phosphor_def Let_def emit_def printConsole_def)

lemma buffer_render_preview: "buffer (render_preview cfg env w) = buffer w"
  by (simp add: render_preview_def launch_viewer_def Let_def emit_def printConsole_def)

lemma buffer_render_convert: "buffer (render_convert cfg env w) = buffer w"
  by (simp add: render_convert_def Let_def emit_def printConsole_def)

lemma renderFile_frame:
  "buffer (renderFile cfg env w) = buffer w \<and>
   buffer_exists (renderFile cfg env w) = buffer_exists w \<and>
   serialPause (renderFile cfg env w) = serialPause w \<and>
   line (renderFile cfg env w) = line w \<and>
   dump_pos (renderFile cfg env w) = dump_pos w \<and>
   dump_mem (renderFile cfg env w) = dump_mem w"
  by (simp add: renderFile_def render_preview_def launch_viewer_def render_phosphor_def
      render_convert_def Let_def emit_def printConsole_def)

lemma out_render_phosphor:
  "out (render_phosphor cfg env w)
     = out w @ (if CONV_FORMAT cfg = ''png'' \<and> PNG_PHOSPHOR cfg
                then [Console Phosphor_mode_processing, Shell (phosphor_command cfg (now env))]
                     @ (if phosphor_oserror env then [Console ERROR_phosphor] else [])
                else [])"
  by (simp add: render_phosphor_def Let_def emit_def printConsole_def)

lemma out_render_preview:
  "out (render_preview cfg env w)
     = out w @ (if PREVIEW cfg
                then [Console Rendered_launching_viewer, Shell (viewer_command cfg (now env))]
                     @ (if viewer_status env \<noteq> 0
                        then [Console (WARNING_viewer (viewer_status env))] else [])
                else [Console Preview_disabled])"
  by (simp add: render_preview_def launch_viewer_def Let_def emit_def printConsole_def)

subsection \<open>C4: a failed conversion\<close>

text \<open>
  Claim C4, as amended. When the converter exits with a status other than zero,
  \<^verbatim>\<open>renderFile\<close> reports the error and goes on as it does after a success: it runs the
  phosphor step when the format is \<^verbatim>\<open>png\<close> and phosphor is enabled, and it launches
  the viewer when the preview is enabled. The failure is not fatal: \<^verbatim>\<open>clearBuffer\<close>, which
  the monitor calls next, returns normally, with the buffer emptied in default mode and
  left as it is in keep-buffer mode.
\<close>

theorem failed_conversion_goes_on:
  assumes "render_status env \<noteq> 0"
  shows "new_out w (renderFile cfg env w)
           = [Converter (render_command cfg (now env)) (buffer w),
              Console (ERROR_failed_to_decode (render_status env))]
             @ (if CONV_FORMAT cfg = ''png'' \<and> PNG_PHOSPHOR cfg
                then [Console Phosphor_mode_processing, Shell (phosphor_command cfg (now env))]
                     @ (if phosphor_oserror env then [Console ERROR_phosphor] else [])
                else [])
             @ (if PREVIEW cfg
                then [Console Rendered_launching_viewer, Shell (viewer_command cfg (now env))]
                     @ (if viewer_status env \<noteq> 0
                        then [Console (WARNING_viewer (viewer_status env))] else [])
                else [Console Preview_disabled]) \<and>
         (buffer_exists w \<and> \<not> KEEP_BUFFER cfg \<longrightarrow>
            (\<exists>w'. clearBuffer cfg (renderFile cfg env w) = Ok w' \<and> buffer w' = [] \<and>
                  serialPause w' = serialPause w \<and> buffer_exists w')) \<and>
         (KEEP_BUFFER cfg \<longrightarrow>
            clearBuffer cfg (renderFile cfg env w) = Ok (renderFile cfg env w))"
proof -
  have "out (renderFile cfg env w) = out w @
           [Converter (render_command cfg (now env)) (buffer w),
              Console (ERROR_failed_to_decode (render_status env))]
             @ (if CONV_FORMAT cfg = ''png'' \<and> PNG_PHOSPHOR cfg
                then [Console Phosphor_mode_processing, Shell (phosphor_command cfg (now env))]
                     @ (if phosphor_oserror env then [Console ERROR_phosphor] else [])
                else [])
             @ (if PREVIEW cfg
                then [Console Rendered_launching_viewer, Shell (viewer_command cfg (now env))]
                     @ (if viewer_status env \<noteq> 0
                        then [Console (WARNING_viewer (viewer_status env))] else [])
                else [Console Preview_disabled])"
    using assms
    by (simp add: renderFile_def out_render_preview out_render_phosphor out_render_convert)
  then have first: "new_out w (renderFile cfg env w) =
           [Converter (render_command cfg (now env)) (buffer w),
              Console (ERROR_failed_to_decode (render_status env))]
             @ (if CONV_FORMAT cfg = ''png'' \<and> PNG_PHOSPHOR cfg
                then [Console Phosphor_mode_processing, Shell (phosphor_command cfg (now env))]
                     @ (if phosphor_oserror env then [Console ERROR_phosphor] else [])
                else [])
             @ (if PREVIEW cfg
                then [Console Rendered_launching_viewer, Shell (viewer_command cfg (now env))]
                     @ (if viewer_status env \<noteq> 0
                        then [Console (WARNING_viewer (viewer_status env))] else [])
                else [Console Preview_disabled])"
    by (rule new_out_app)
  have second: "buffer_exists w \<and> \<not> KEEP_BUFFER cfg \<longrightarrow>
            (\<exists>w'. clearBuffer cfg (renderFile cfg env w) = Ok w' \<and> buffer w' = [] \<and>
                  serialPause w' = serialPause w \<and> buffer_exists w')"
    by (simp add: clearBuffer_def renderFile_frame getSize_def printConsole_def)
  have third: "KEEP_BUFFER cfg \<longrightarrow>
            clearBuffer cfg (renderFile cfg env w) = Ok (renderFile cfg env w)"
    by (simp add: clearBuffer_def)
  from first second third show ?thesis by blast
qed

theorem failed_conversion_goes_on_witness:
  "render_status env_failed \<noteq> 0 \<and>
   new_out (world_with [1, 2]) (renderFile (default_config ''/home/user'') env_failed (world_with [1, 2]))
     = [Converter (render_command (default_config ''/home/user'') (now env_failed)) [1, 2],
        Console (ERROR_failed_to_decode 1),
        Console Rendered_launching_viewer,
        Shell (viewer_command (default_config ''/home/user'') (now env_failed))] \<and>
   is_Ok (clearBuffer (default_config ''/home/user'')
            (renderFile (default_config ''/home/user'') env_failed (world_with [1, 2]))) \<and>
   buffer (final (clearBuffer (default_config ''/home/user'')
            (renderFile (default_config ''/home/user'') env_failed (world_with [1, 2])))) = []"
proof -
  have h: "render_status env_failed \<noteq> 0"
    by (simp add: env_failed_def env_ok_def)
  have c: "CONV_FORMAT (default_config ''/home/user'') = ''pdf''"
          "PREVIEW (default_config ''/home/user'')"
          "\<not> KEEP_BUFFER (default_config ''/home/user'')"
    by (simp_all add: default_config_def)
  have e: "render_status env_failed = 1" "viewer_status env_failed = 0"
    by (simp_all add: env_failed_def env_ok_def)
  have w: "buffer (world_with [1, 2]) = [1, 2]" "buffer_exists (world_with [1, 2])"
    by (simp_all add: world_with_def)
  show ?thesis
    using h failed_conversion_goes_on [OF h, of "world_with [1, 2]" "default_config ''/home/user''"]
    by (auto simp add: c e w)
qed

text \<open>
  The claim as stated says that neither the phosphor step nor the preview is attempted.
  With the configuration of the source set to \<^verbatim>\<open>png\<close> and a converter that exits with
  status 1, both are.
\<close>

theorem failed_conversion_still_previews:
  "out (renderFile ((default_config ''/home/user'')\<lparr>CONV_FORMAT := ''png''\<rparr>) env_failed
          (world_with [1]))
     = [Converter (''/usr/local/bin/gpcl6 -sDEVICE=pdfwrite -o  ''
                     @ ''/home/user/scope_output_2024-05-01_12:00:00.png /tmp/scope.dump'') [1],
        Console (ERROR_failed_to_decode 1),
        Console Phosphor_mode_processing,
        Shell (phosphor_command ((default_config ''/home/user'')\<lparr>CONV_FORMAT := ''png''\<rparr>)
                 ''2024-05-01_12:00:00''),
        Console Rendered_launching_viewer,
        Shell ''firefox /home/user/scope_output_2024-05-01_12:00:00.png'']"
  by (simp add: renderFile_def out_render_preview out_render_phosphor out_render_convert
      env_failed_def env_ok_def world_with_def default_config_def
      render_command_def viewer_command_def file_name_of_def)

subsection \<open>Keys, and the two modes of \<^verbatim>\<open>clearBuffer\<close>\<close>

lemma lower_p: "lower (CHR ''p'') = CHR ''p''" "lower (CHR ''P'') = CHR ''p''"
  by (simp_all add: lower_def)

lemma lower_r: "lower (CHR ''r'') = CHR ''r''" "lower (CHR ''R'') = CHR ''r''"
  by (simp_all add: lower_def)

lemma handleInput_key_p:
  "lower c = CHR ''p'' \<Longrightarrow> handleInput_key cfg c w = Ok (key_p w)"
  by (simp add: handleInput_key_def)

lemma handleInput_key_r:
  "lower c = CHR ''r'' \<Longrightarrow> handleInput_key cfg c w = key_r cfg w"
  by (cases "key_r cfg w") (simp_all add: handleInput_key_def)

lemma key_p_frame:
  "serialPause (key_p w) \<and> buffer (key_p w) = buffer w \<and>
   buffer_exists (key_p w) = buffer_exists w \<and> line (key_p w) = line w \<and>
   dump_pos (key_p w) = dump_pos w \<and> dump_mem (key_p w) = dump_mem w \<and>
   out (key_p w) = out w @ [Console P_received]"
  by (simp add: key_p_def printConsole_def)

lemma clearBuffer_default:
  "\<not> KEEP_BUFFER cfg \<Longrightarrow> buffer_exists w \<Longrightarrow>
   \<exists>w1. clearBuffer cfg w = Ok w1 \<and> buffer w1 = [] \<and> serialPause w1 = serialPause w \<and>
        buffer_exists w1 \<and> line w1 = line w \<and> dump_pos w1 = dump_pos w \<and>
        dump_mem w1 = dump_mem w"
  by (simp add: clearBuffer_def getSize_def printConsole_def)

lemma clearBuffer_keep: "KEEP_BUFFER cfg \<Longrightarrow> clearBuffer cfg w = Ok w"
  by (simp add: clearBuffer_def)

lemma listen_iter_paused: "serialPause w \<Longrightarrow> listen_iter w = Some w"
  by (simp add: listen_iter_def)

lemma key_r_ok:
  "buffer_exists w \<or> KEEP_BUFFER cfg \<Longrightarrow>
   \<exists>w'. key_r cfg w = Ok w' \<and> \<not> serialPause w' \<and> buffer_exists w' = buffer_exists w"
  by (auto simp add: key_r_def clearBuffer_def printConsole_def)

lemma handleInput_collapse:
  "buffer_exists w \<or> KEEP_BUFFER cfg \<Longrightarrow> keys \<noteq> [] \<Longrightarrow>
   \<forall>c \<in> set keys. lower c = CHR ''p'' \<or> lower c = CHR ''r'' \<Longrightarrow>
   \<exists>w'. handleInput cfg keys w = Ok w' \<and> serialPause w' = (lower (last keys) = CHR ''p'') \<and>
        buffer_exists w' = buffer_exists w"
proof (induction keys arbitrary: w)
  case Nil
  then show ?case by simp
next
  case (Cons c cs)
  have "\<exists>w1. handleInput_key cfg c w = Ok w1 \<and> serialPause w1 = (lower c = CHR ''p'') \<and>
             buffer_exists w1 = buffer_exists w"
  proof (cases "lower c = CHR ''p''")
    case True
    then show ?thesis by (simp add: handleInput_key_p key_p_frame)
  next
    case False
    with Cons.prems(3) have r: "lower c = CHR ''r''" by simp
    from key_r_ok [OF Cons.prems(1)] r False show ?thesis
      by (simp add: handleInput_key_r)
  qed
  then obtain w1 where w1: "handleInput_key cfg c w = Ok w1"
      "serialPause w1 = (lower c = CHR ''p'')" "buffer_exists w1 = buffer_exists w"
    by blast
  show ?case
  proof (cases "cs = []")
    case True
    with w1 show ?thesis by simp
  next
    case False
    from Cons.prems(1) w1(3) have e: "buffer_exists w1 \<or> KEEP_BUFFER cfg" by simp
    from Cons.prems(3) have a: "\<forall>c \<in> set cs. lower c = CHR ''p'' \<or> lower c = CHR ''r''" by simp
    from Cons.IH [OF e False a] w1 False show ?thesis by simp
  qed
qed

subsection \<open>C6: pause is idempotent\<close>

text \<open>
  Claim C6. The key \<^verbatim>\<open>p\<close> pressed twice leaves the world that one press leaves, but for
  the status line printed once more: the pause event is set, and the buffer, the line and
  the listener's handle are untouched (the same for two calls of \<^verbatim>\<open>startStopSerial\<close>
  with \<^verbatim>\<open>stop\<close> in the Pro variant). And after any sequence of pause and resume keys,
  with the buffer file in place or in keep-buffer mode, the pause event is what the last
  key makes it: set after a pause, clear after a resume.
\<close>

theorem pause_idempotent:
  "handleInput cfg [CHR ''p''] w = Ok (key_p w) \<and>
   handleInput cfg [CHR ''p'', CHR ''p''] w
     = Ok ((key_p w)\<lparr>out := out (key_p w) @ [Console P_received]\<rparr>) \<and>
   andThen (pro_startStopSerial cfg ''stop'' w) (pro_startStopSerial cfg ''stop'')
     = Ok ((final (pro_startStopSerial cfg ''stop'' w))
             \<lparr>out := out (final (pro_startStopSerial cfg ''stop'' w)) @ [Console Pause_received_gui]\<rparr>) \<and>
   (buffer_exists w \<or> KEEP_BUFFER cfg \<longrightarrow> keys \<noteq> [] \<longrightarrow>
    (\<forall>c \<in> set keys. lower c = CHR ''p'' \<or> lower c = CHR ''r'') \<longrightarrow>
    (\<exists>w'. handleInput cfg keys w = Ok w' \<and>
          serialPause w' = (lower (last keys) = CHR ''p'')))"
proof -
  have a: "handleInput cfg [CHR ''p''] w = Ok (key_p w)"
    by (simp add: handleInput_key_p lower_p)
  have b: "handleInput cfg [CHR ''p'', CHR ''p''] w
     = Ok ((key_p w)\<lparr>out := out (key_p w) @ [Console P_received]\<rparr>)"
    by (simp add: handleInput_key_p lower_p) (simp add: key_p_def printConsole_def)
  have c: "andThen (pro_startStopSerial cfg ''stop'' w) (pro_startStopSerial cfg ''stop'')
     = Ok ((final (pro_startStopSerial cfg ''stop'' w))
             \<lparr>out := out (final (pro_startStopSerial cfg ''stop'' w)) @ [Console Pause_received_gui]\<rparr>)"
    by (simp add: pro_startStopSerial_def printConsole_def)
  have d: "buffer_exists w \<or> KEEP_BUFFER cfg \<longrightarrow> keys \<noteq> [] \<longrightarrow>
    (\<forall>c \<in> set keys. lower c = CHR ''p'' \<or> lower c = CHR ''r'') \<longrightarrow>
    (\<exists>w'. handleInput cfg keys w = Ok w' \<and>
          serialPause w' = (lower (last keys) = CHR ''p''))"
    using handleInput_collapse [of w cfg keys] by blast
  from a b c d show ?thesis by blast
qed


theorem pause_idempotent_witness:
  "buffer_exists (world_with [1]) \<and> ''pPrRp'' \<noteq> [] \<and>
   serialPause (final (handleInput (default_config ''/home/user'') ''pPrRp'' (world_with [1]))) \<and>
   \<not> serialPause (final (handleInput (default_config ''/home/user'') ''prpR'' (world_with [1]))) \<and>
   buffer (final (handleInput (default_config ''/home/user'') ''pp'' (world_with [1]))) = [1]"
proof -
  have e: "buffer_exists (world_with [1])"
    by (simp add: world_with_def)
  then have h: "buffer_exists (world_with [1]) \<or> KEEP_BUFFER (default_config ''/home/user'')"
    by simp
  have k1: "\<forall>c \<in> set ''pPrRp''. lower c = CHR ''p'' \<or> lower c = CHR ''r''"
    by (simp add: lower_p lower_r)
  have k2: "\<forall>c \<in> set ''prpR''. lower c = CHR ''p'' \<or> lower c = CHR ''r''"
    by (simp add: lower_p lower_r)
  have n1: "''pPrRp'' \<noteq> []" and n2: "''prpR'' \<noteq> []"
    by simp_all
  have l1: "lower (last ''pPrRp'') = CHR ''p''" and l2: "lower (last ''prpR'') \<noteq> CHR ''p''"
    by (simp_all add: lower_p lower_r)
  from pause_idempotent [of "default_config ''/home/user''" "world_with [1]" "''pPrRp''"] h n1 k1
  have "\<exists>w'. handleInput (default_config ''/home/user'') ''pPrRp'' (world_with [1]) = Ok w' \<and>
             serialPause w' = (lower (last ''pPrRp'') = CHR ''p'')"
    by blast
  with l1 have a: "serialPause (final (handleInput (default_config ''/home/user'') ''pPrRp''
                     (world_with [1])))"
    by auto
  from pause_idempotent [of "default_config ''/home/user''" "world_with [1]" "''prpR''"] h n2 k2
  have "\<exists>w'. handleInput (default_config ''/home/user'') ''prpR'' (world_with [1]) = Ok w' \<and>
             serialPause w' = (lower (last ''prpR'') = CHR ''p'')"
    by blast
  with l2 have b: "\<not> serialPause (final (handleInput (default_config ''/home/user'') ''prpR''
                     (world_with [1])))"
    by auto
  from pause_idempotent [of "default_config ''/home/user''" "world_with [1]" "''pp''"]
  have "handleInput (default_config ''/home/user'') ''pp'' (world_with [1])
          = Ok ((key_p (world_with [1]))\<lparr>out := out (key_p (world_with [1])) @ [Console P_received]\<rparr>)"
    by blast
  then have c: "buffer (final (handleInput (default_config ''/home/user'') ''pp'' (world_with [1]))) = [1]"
    by (simp add: key_p_frame world_with_def)
  from e n1 a b c show ?thesis by blast
qed

subsection \<open>The handle's memory across passes\<close>





subsection \<open>Appends within a window of the inactivity timeout\<close>

lemma gap_window:
  "gaps_below T ts \<Longrightarrow> ts \<noteq> [] \<Longrightarrow> a < last ts \<Longrightarrow> a + T \<le> b \<Longrightarrow>
   (\<exists>u \<in> set ts. a < u \<and> u \<le> b) \<or> (\<forall>u \<in> set ts. b < u)"
proof (induction T ts rule: gaps_below.induct)
  case (1 T)
  then show ?case by simp
next
  case (2 T x)
  then show ?case by auto
next
  case (3 T x y ts)
  from "3.prems" have g: "gaps_below T (y # ts)" and xy: "y - x < T" by simp_all
  from "3.prems" have l: "a < last (y # ts)" by simp
  from "3.IH" [OF g _ l "3.prems"(4)]
  have ih: "(\<exists>u \<in> set (y # ts). a < u \<and> u \<le> b) \<or> (\<forall>u \<in> set (y # ts). b < u)" by simp
  show ?case
  proof (cases "\<exists>u \<in> set (y # ts). a < u \<and> u \<le> b")
    case True
    then show ?thesis by auto
  next
    case False
    with ih have all: "\<forall>u \<in> set (y # ts). b < u" by blast
    then have b_y: "b < y" by simp
    show ?thesis
    proof (cases "b < x")
      case True
      with all show ?thesis by auto
    next
      case False
      then have xb: "x \<le> b" by simp
      show ?thesis
      proof (cases "a < x")
        case True
        with xb show ?thesis by auto
      next
        case False
        with xy "3.prems"(4) b_y show ?thesis by linarith
      qed
    qed
  qed
qed

lemma length_filter_split:
  "a \<le> b \<Longrightarrow>
   length (filter (\<lambda>p. fst p \<le> (b::real)) as)
     = length (filter (\<lambda>p. fst p \<le> a) as) + length (filter (\<lambda>p. a < fst p \<and> fst p \<le> b) as)"
  by (induction as) auto

lemma filter_none: "(\<forall>u \<in> set (map fst as). (b::real) < u) \<Longrightarrow> filter (\<lambda>p. fst p \<le> b) as = []"
  by (induction as) auto

lemma filter_some:
  "\<exists>u \<in> set (map fst as). (a::real) < u \<and> u \<le> b \<Longrightarrow>
   0 < length (filter (\<lambda>p. a < fst p \<and> fst p \<le> b) as)"
  by (induction as) auto

lemma sizes_in_window:
  assumes "gaps_below T (map fst as)" and "as \<noteq> []" and "a < fst (last as)"
      and "a + T \<le> b" and "0 \<le> T"
  shows "length (bytes_by as a) < length (bytes_by as b) \<or>
         (length (bytes_by as a) = 0 \<and> length (bytes_by as b) = 0)"
proof -
  from assms(2) have ne: "map fst as \<noteq> []" by simp
  from assms(2,3) have l: "a < last (map fst as)" by (simp add: last_map)
  from assms(4,5) have ab: "a \<le> b" by simp
  from gap_window [OF assms(1) ne l assms(4)]
  show ?thesis
  proof
    assume "\<exists>u \<in> set (map fst as). a < u \<and> u \<le> b"
    from filter_some [OF this] length_filter_split [OF ab, of as]
    show ?thesis by (simp add: bytes_by_def)
  next
    assume n: "\<forall>u \<in> set (map fst as). b < u"
    then have "\<forall>u \<in> set (map fst as). a < u" using ab by auto
    from filter_none [OF this] filter_none [OF n]
    show ?thesis by (simp add: bytes_by_def)
  qed
qed

lemma timer_sleep_appends:
  "buffer (timer_sleep cfg (appends_between as a b) w)
     = buffer w @ map snd (filter (\<lambda>p. a < fst p \<and> fst p \<le> b) as)"
  "out (timer_sleep cfg (appends_between as a b) w)
     = out w @ (if getSize (buffer w) = 0 then [Console Waiting_for_input] else [])
         @ [Sleep (real (TIMEOUT_S cfg))]"
  by (simp_all add: timer_sleep_def appends_between_def sleep_def printConsole_def)

subsection \<open>C2: no completed job while bytes keep arriving\<close>

text \<open>
  Claim C2. Let bytes be appended to an initially empty buffer at times that do not
  decrease and lie less than \<^verbatim>\<open>TIMEOUT_S\<close> apart. Take a monitor cycle, not paused, whose
  first sample is taken at time \<open>a\<close>, before the last append, and whose second sample is
  taken at time \<open>b\<close>, no earlier than \<open>a\<close> plus \<^verbatim>\<open>TIMEOUT_S\<close> (the sleep lasts at least that
  long). Then the second sample is the size of what was appended up to \<open>b\<close>, and either it
  is larger than the first or both are zero; the cycle ends normally, starts no conversion
  and does not announce a completed job.
\<close>

theorem no_complete_while_appending:
  assumes "gaps_below (real (TIMEOUT_S cfg)) (map fst as)"
      and "as \<noteq> []" and "a < fst (last as)"
      and "a + real (TIMEOUT_S cfg) \<le> b"
      and "buffer w = bytes_by as a" and "\<not> serialPause w" and "buffer_exists w"
  shows "(let S0 = getSize (buffer w);
              w2 = timer_sleep cfg (appends_between as a b) w;
              S1 = getSize (buffer w2);
              r = timerRun_iter cfg env (appends_between as a b) w
          in S1 = getSize (bytes_by as b) \<and> (S0 < S1 \<or> (S0 = 0 \<and> S1 = 0)) \<and> is_Ok r \<and>
             converter_runs (out (final r)) = converter_runs (out w) \<and>
             Console Job_complete_rendering \<notin> set (new_out w (final r)))"
proof -
  let ?w2 = "timer_sleep cfg (appends_between as a b) w"
  let ?S0 = "getSize (buffer w)"
  let ?S1 = "getSize (buffer ?w2)"
  let ?r = "timerRun_iter cfg env (appends_between as a b) w"
  from assms(4) have ab: "a \<le> b" by simp
  have s1: "?S1 = getSize (bytes_by as b)"
    using length_filter_split [OF ab, of as] assms(5)
    by (simp add: timer_sleep_appends getSize_def bytes_by_def)
  have "length (bytes_by as a) < length (bytes_by as b) \<or>
         (length (bytes_by as a) = 0 \<and> length (bytes_by as b) = 0)"
    by (rule sizes_in_window [OF assms(1) assms(2) assms(3) assms(4)]) simp
  with s1 assms(5) have grow: "?S0 < ?S1 \<or> (?S0 = 0 \<and> ?S1 = 0)"
    by (simp add: getSize_def)
  have r: "?r = timer_decide cfg env ?S0 ?w2"
    using assms(6,7) by (simp add: timerRun_iter_def)
  have rest: "is_Ok ?r \<and> converter_runs (out (final ?r)) = converter_runs (out w) \<and>
              Console Job_complete_rendering \<notin> set (new_out w (final ?r))"
  proof (cases "?S1 = 0")
    case True
    then have "?r = Ok ?w2"
      by (simp add: r timer_decide_def)
    then show ?thesis
      by (simp add: timer_sleep_appends new_out_def converter_runs_append)
  next
    case False
    with grow have ne: "?S1 \<noteq> ?S0" by auto
    with False have "?r = Ok (printConsole (Receiving_data ?S1)
                (if ?S0 = 0 then printConsole Starting_job_processing ?w2 else ?w2))"
      by (simp add: r timer_decide_def Let_def)
    then show ?thesis
      by (simp add: timer_sleep_appends new_out_def converter_runs_append out_printConsole)
  qed
  from s1 grow rest show ?thesis by (simp add: Let_def)
qed

theorem no_complete_while_appending_witness:
  "gaps_below (real (TIMEOUT_S (default_config ''/home/user''))) (map fst sample_appends) \<and>
   sample_appends \<noteq> [] \<and>
   3 / 2 < fst (last sample_appends) \<and>
   3 / 2 + real (TIMEOUT_S (default_config ''/home/user'')) \<le> 7 / 2 \<and>
   buffer (world_with [10]) = bytes_by sample_appends (3 / 2) \<and>
   \<not> serialPause (world_with [10]) \<and> buffer_exists (world_with [10]) \<and>
   getSize (buffer (timer_sleep (default_config ''/home/user'')
       (appends_between sample_appends (3 / 2) (7 / 2)) (world_with [10]))) = 3 \<and>
   converter_runs (out (final (timerRun_iter (default_config ''/home/user'') env_ok
       (appends_between sample_appends (3 / 2) (7 / 2)) (world_with [10])))) = []"
proof -
  let ?c = "default_config ''/home/user''"
  have t: "TIMEOUT_S ?c = 2" by (simp add: default_config_def)
  have h1: "gaps_below (real (TIMEOUT_S ?c)) (map fst sample_appends)"
    by (simp add: t sample_appends_def)
  have h2: "sample_appends \<noteq> []" by (simp add: sample_appends_def)
  have h3: "3 / 2 < fst (last sample_appends)" by (simp add: sample_appends_def)
  have h4: "3 / 2 + real (TIMEOUT_S ?c) \<le> 7 / 2" by (simp add: t)
  have h5: "buffer (world_with [10]) = bytes_by sample_appends (3 / 2)"
    by (simp add: world_with_def bytes_by_def sample_appends_def)
  have h6: "\<not> serialPause (world_with [10])" and h7: "buffer_exists (world_with [10])"
    by (simp_all add: world_with_def)
  have b: "getSize (bytes_by sample_appends (7 / 2)) = 3"
    by (simp add: bytes_by_def getSize_def sample_appends_def)
  have o: "out (world_with [10]) = []" by (simp add: world_with_def)
  from no_complete_while_appending [OF h1 h2 h3 h4 h5 h6 h7, of env_ok]
  have "getSize (buffer (timer_sleep ?c (appends_between sample_appends (3 / 2) (7 / 2))
                  (world_with [10]))) = 3 \<and>
        converter_runs (out (final (timerRun_iter ?c env_ok
           (appends_between sample_appends (3 / 2) (7 / 2)) (world_with [10])))) = []"
    by (simp add: Let_def b o)
  with h1 h2 h3 h4 h5 h6 h7 show ?thesis by blast
qed

subsection \<open>Cycles during which nothing else happens\<close>

lemma timer_sleep_id:
  "buffer (timer_sleep cfg (\<lambda>w. w) w) = buffer w"
  "buffer_exists (timer_sleep cfg (\<lambda>w. w) w) = buffer_exists w"
  "serialPause (timer_sleep cfg (\<lambda>w. w) w) = serialPause w"
  "converter_runs (out (timer_sleep cfg (\<lambda>w. w) w)) = converter_runs (out w)"
  by (simp_all add: timer_sleep_def sleep_def printConsole_def converter_runs_append)

lemma idle_cycle:
  "\<not> serialPause w \<Longrightarrow> buffer_exists w \<Longrightarrow> buffer w = [] \<Longrightarrow>
   timerRun_iter cfg env (\<lambda>w. w) w = Ok (timer_sleep cfg (\<lambda>w. w) w)"
  by (simp add: timerRun_iter_def timer_decide_def timer_sleep_id getSize_def)

lemma idle_cycles:
  "\<not> serialPause w \<Longrightarrow> buffer_exists w \<Longrightarrow> buffer w = [] \<Longrightarrow>
   \<exists>w'. timerRun cfg (map (\<lambda>e. (e, \<lambda>w. w)) envs) w = Ok w' \<and> buffer w' = [] \<and>
        converter_runs (out w') = converter_runs (out w)"
proof (induction envs arbitrary: w)
  case Nil
  then show ?case by simp
next
  case (Cons e envs)
  let ?w1 = "timer_sleep cfg (\<lambda>w. w) w"
  from Cons.prems have 1: "\<not> serialPause ?w1" "buffer_exists ?w1" "buffer ?w1 = []"
    by (simp_all add: timer_sleep_id)
  from Cons.IH [OF 1] Cons.prems show ?case
    by (simp add: idle_cycle timer_sleep_id)
qed

lemma complete_cycle:
  assumes "\<not> serialPause w" and "buffer_exists w" and "buffer w \<noteq> []"
  shows "timerRun_iter cfg env (\<lambda>w. w) w
           = clearBuffer cfg (renderFile cfg env
               (printConsole Job_complete_rendering (timer_sleep cfg (\<lambda>w. w) w)))"
  using assms by (simp add: timerRun_iter_def timer_decide_def timer_sleep_id getSize_def)

lemma complete_cycle_default:
  assumes "\<not> serialPause w" and "buffer_exists w" and "buffer w \<noteq> []" and "\<not> KEEP_BUFFER cfg"
  shows "\<exists>w1. timerRun_iter cfg env (\<lambda>w. w) w = Ok w1 \<and> \<not> serialPause w1 \<and> buffer_exists w1 \<and>
              buffer w1 = [] \<and> converter_runs (out w1) = converter_runs (out w) @ [buffer w]"
proof -
  let ?v = "renderFile cfg env (printConsole Job_complete_rendering (timer_sleep cfg (\<lambda>w. w) w))"
  have v: "buffer ?v = buffer w" "buffer_exists ?v" "\<not> serialPause ?v"
    using assms by (simp_all add: renderFile_frame printConsole_def timer_sleep_id)
  have c: "converter_runs (out ?v) = converter_runs (out w) @ [buffer w]"
    by (simp add: converter_runs_renderFile out_printConsole converter_runs_append
        timer_sleep_id buffer_printConsole)
  from v assms(3) have "clearBuffer cfg ?v = Ok (printConsole Cleared_buffer_on_disk (?v\<lparr>buffer := []\<rparr>))"
    using assms(4) by (simp add: clearBuffer_def getSize_def)
  with v c show ?thesis
    by (simp add: complete_cycle [OF assms(1-3)] printConsole_def converter_runs_append)
qed

lemma complete_cycle_keep:
  assumes "\<not> serialPause w" and "buffer_exists w" and "buffer w \<noteq> []" and "KEEP_BUFFER cfg"
  shows "\<exists>w1. timerRun_iter cfg env (\<lambda>w. w) w = Ok w1 \<and> \<not> serialPause w1 \<and> buffer_exists w1 \<and>
              buffer w1 = buffer w \<and> converter_runs (out w1) = converter_runs (out w) @ [buffer w]"
proof -
  let ?v = "renderFile cfg env (printConsole Job_complete_rendering (timer_sleep cfg (\<lambda>w. w) w))"
  have v: "buffer ?v = buffer w" "buffer_exists ?v" "\<not> serialPause ?v"
    using assms by (simp_all add: renderFile_frame printConsole_def timer_sleep_id)
  have c: "converter_runs (out ?v) = converter_runs (out w) @ [buffer w]"
    by (simp add: converter_runs_renderFile out_printConsole converter_runs_append
        timer_sleep_id buffer_printConsole)
  with v show ?thesis
    by (simp add: complete_cycle [OF assms(1-3)] clearBuffer_keep [OF assms(4)])
qed

lemma keep_cycles:
  "\<not> serialPause w \<Longrightarrow> buffer_exists w \<Longrightarrow> buffer w \<noteq> [] \<Longrightarrow> KEEP_BUFFER cfg \<Longrightarrow>
   \<exists>w'. timerRun cfg (map (\<lambda>e. (e, \<lambda>w. w)) envs) w = Ok w' \<and> buffer w' = buffer w \<and>
        converter_runs (out w') = converter_runs (out w) @ replicate (length envs) (buffer w)"
proof (induction envs arbitrary: w)
  case Nil
  then show ?case by simp
next
  case (Cons e envs)
  from complete_cycle_keep [OF Cons.prems, of e] obtain w1 where
    w1: "timerRun_iter cfg e (\<lambda>w. w) w = Ok w1" "\<not> serialPause w1" "buffer_exists w1"
        "buffer w1 = buffer w" "converter_runs (out w1) = converter_runs (out w) @ [buffer w]"
    by blast
  from w1 Cons.prems have ne: "buffer w1 \<noteq> []" by simp
  from Cons.IH [OF w1(2) w1(3) ne Cons.prems(4)] w1 show ?case
    by (simp add: replicate_append_same)
qed

subsection \<open>C3: one completed job when the appends stop\<close>

text \<open>
  Claim C3, as amended. Let capture be not paused and the buffer file hold at least one
  byte, and let nothing touch the world while the monitor sleeps, for one cycle or more.
  In default mode the first cycle announces the job and calls the renderer on the buffer,
  synchronously, then empties the buffer; every later cycle finds it empty and does
  nothing more, so the converter is started exactly once and the monitor is back at idle.
  In keep-buffer mode the buffer is left as it is, and every cycle finds the same size
  twice and starts the converter again, once per cycle.
\<close>

theorem one_complete_per_job:
  assumes "\<not> serialPause w" and "buffer_exists w" and "buffer w \<noteq> []" and "envs \<noteq> []"
  shows "(\<not> KEEP_BUFFER cfg \<longrightarrow>
            (\<exists>w'. timerRun cfg (map (\<lambda>e. (e, \<lambda>w. w)) envs) w = Ok w' \<and>
                  converter_runs (out w') = converter_runs (out w) @ [buffer w] \<and>
                  buffer w' = [])) \<and>
         (KEEP_BUFFER cfg \<longrightarrow>
            (\<exists>w'. timerRun cfg (map (\<lambda>e. (e, \<lambda>w. w)) envs) w = Ok w' \<and>
                  converter_runs (out w')
                    = converter_runs (out w) @ replicate (length envs) (buffer w) \<and>
                  buffer w' = buffer w))"
proof -
  from assms(4) obtain e es where envs: "envs = e # es" by (cases envs) auto
  have a: "\<not> KEEP_BUFFER cfg \<longrightarrow>
            (\<exists>w'. timerRun cfg (map (\<lambda>e. (e, \<lambda>w. w)) envs) w = Ok w' \<and>
                  converter_runs (out w') = converter_runs (out w) @ [buffer w] \<and>
                  buffer w' = [])"
  proof
    assume k: "\<not> KEEP_BUFFER cfg"
    from complete_cycle_default [OF assms(1-3) k, of e] obtain w1 where
      w1: "timerRun_iter cfg e (\<lambda>w. w) w = Ok w1" "\<not> serialPause w1" "buffer_exists w1"
          "buffer w1 = []" "converter_runs (out w1) = converter_runs (out w) @ [buffer w]"
      by blast
    from idle_cycles [OF w1(2) w1(3) w1(4), of cfg es] w1
    show "\<exists>w'. timerRun cfg (map (\<lambda>e. (e, \<lambda>w. w)) envs) w = Ok w' \<and>
                  converter_runs (out w') = converter_runs (out w) @ [buffer w] \<and>
                  buffer w' = []"
      by (auto simp add: envs)
  qed
  have b: "KEEP_BUFFER cfg \<longrightarrow>
            (\<exists>w'. timerRun cfg (map (\<lambda>e. (e, \<lambda>w. w)) envs) w = Ok w' \<and>
                  converter_runs (out w')
                    = converter_runs (out w) @ replicate (length envs) (buffer w) \<and>
                  buffer w' = buffer w)"
    using keep_cycles [OF assms(1-3), of cfg envs] by blast
  from a b show ?thesis by blast
qed

theorem one_complete_per_job_witness:
  "\<not> serialPause (world_with [1, 2]) \<and> buffer_exists (world_with [1, 2]) \<and>
   buffer (world_with [1, 2]) \<noteq> [] \<and> [env_ok, env_ok, env_ok] \<noteq> [] \<and>
   \<not> KEEP_BUFFER (default_config ''/home/user'') \<and>
   converter_runs (out (final (timerRun (default_config ''/home/user'')
       (map (\<lambda>e. (e, \<lambda>w. w)) [env_ok, env_ok, env_ok]) (world_with [1, 2])))) = [[1, 2]] \<and>
   buffer (final (timerRun (default_config ''/home/user'')
       (map (\<lambda>e. (e, \<lambda>w. w)) [env_ok, env_ok, env_ok]) (world_with [1, 2]))) = []"
proof -
  have h1: "\<not> serialPause (world_with [1, 2])" and h2: "buffer_exists (world_with [1, 2])"
   and h3: "buffer (world_with [1, 2]) \<noteq> []"
    by (simp_all add: world_with_def)
  have h4: "[env_ok, env_ok, env_ok] \<noteq> []" by simp
  have k: "\<not> KEEP_BUFFER (default_config ''/home/user'')"
    by (simp add: default_config_def)
  have o: "out (world_with [1, 2]) = []" "buffer (world_with [1, 2]) = [1, 2]"
    by (simp_all add: world_with_def)
  from one_complete_per_job [OF h1 h2 h3 h4, of "default_config ''/home/user''"] k
  have "\<exists>w'. timerRun (default_config ''/home/user'')
            (map (\<lambda>e. (e, \<lambda>w. w)) [env_ok, env_ok, env_ok]) (world_with [1, 2]) = Ok w' \<and>
          converter_runs (out w') = converter_runs (out (world_with [1, 2])) @ [buffer (world_with [1, 2])] \<and>
          buffer w' = []"
    by blast
  then have "converter_runs (out (final (timerRun (default_config ''/home/user'')
       (map (\<lambda>e. (e, \<lambda>w. w)) [env_ok, env_ok, env_ok]) (world_with [1, 2])))) = [[1, 2]] \<and>
   buffer (final (timerRun (default_config ''/home/user'')
       (map (\<lambda>e. (e, \<lambda>w. w)) [env_ok, env_ok, env_ok]) (world_with [1, 2]))) = []"
    by (auto simp add: o)
  with h1 h2 h3 h4 k show ?thesis by blast
qed

text \<open>
  The claim as stated asks for exactly one completed job in keep-buffer mode too. With
  \<^verbatim>\<open>KEEP_BUFFER\<close> set, a buffer of two bytes and two quiet cycles, the converter is
  started twice on the same two bytes.
\<close>

theorem keep_buffer_completes_again:
  "KEEP_BUFFER keep_config \<and>
   converter_runs (out (final (timerRun keep_config
       (map (\<lambda>e. (e, \<lambda>w. w)) [env_ok, env_ok]) (world_with [1, 2])))) = [[1, 2], [1, 2]] \<and>
   buffer (final (timerRun keep_config
       (map (\<lambda>e. (e, \<lambda>w. w)) [env_ok, env_ok]) (world_with [1, 2]))) = [1, 2]"
proof -
  have h1: "\<not> serialPause (world_with [1, 2])" and h2: "buffer_exists (world_with [1, 2])"
   and h3: "buffer (world_with [1, 2]) \<noteq> []"
    by (simp_all add: world_with_def)
  have k: "KEEP_BUFFER keep_config"
    by (simp add: keep_config_def)
  have o: "out (world_with [1, 2]) = []" "buffer (world_with [1, 2]) = [1, 2]"
    by (simp_all add: world_with_def)
  from keep_cycles [OF h1 h2 h3 k, of "[env_ok, env_ok]"]
  have "converter_runs (out (final (timerRun keep_config
       (map (\<lambda>e. (e, \<lambda>w. w)) [env_ok, env_ok]) (world_with [1, 2])))) = [[1, 2], [1, 2]] \<and>
   buffer (final (timerRun keep_config
       (map (\<lambda>e. (e, \<lambda>w. w)) [env_ok, env_ok]) (world_with [1, 2]))) = [1, 2]"
    by (auto simp add: o numeral_2_eq_2)
  with k show ?thesis by blast
qed

subsection \<open>The sleep between the two samples\<close>

lemma timer_sleep_explicit:
  "timer_sleep cfg conc w
     = conc (w\<lparr>out := out w @ (if getSize (buffer w) = 0 then [Console Waiting_for_input] else [])
                   @ [Sleep (real (TIMEOUT_S cfg))]\<rparr>)"
  by (simp add: timer_sleep_def sleep_def printConsole_def)

lemma pro_timer_sleep_explicit:
  "pro_timer_sleep cfg conc (emit (Gui Capture_RUNNING) w)
     = conc (w\<lparr>out := out w @ [Gui Capture_RUNNING]
                   @ (if getSize (buffer w) = 0
                      then [Console Waiting_for_input, Gui Not_receiving] else [])
                   @ [Sleep (real (TIMEOUT_S cfg))]\<rparr>)"
  by (simp add: pro_timer_sleep_def sleep_def printConsole_def emit_def)

subsection \<open>C1: one monitor cycle\<close>

text \<open>
  Claim C1. In a cycle in which capture is not paused (and the buffer file can be opened)
  the monitor takes the size \<open>S0\<close> of the buffer, reports that it is waiting when \<open>S0\<close> is
  zero, and sleeps for \<^verbatim>\<open>TIMEOUT_S\<close> seconds: \<open>w1\<close> is the world with exactly these effects
  added. The other threads act while it sleeps, which gives \<open>w2\<close>, and there it takes the
  size \<open>S1\<close>. If \<open>S1 = 0\<close> the cycle ends in \<open>w2\<close>, with nothing further done. If
  \<open>S1 \<noteq> 0\<close> and \<open>S1 = S0\<close> it announces the completed job and calls the renderer, and the
  converter is given the buffer as found at the second sample. If \<open>S1 \<noteq> 0\<close> and
  \<open>S1 \<noteq> S0\<close> it reports \<open>S1\<close> received bytes and starts no conversion. The first
  conjunct is \<^verbatim>\<open>timerRun\<close> of \<^verbatim>\<open>pcl_dump.py\<close>, the second the one of the Pro variant,
  which also updates the status fields of its window.
\<close>

theorem monitor_cycle:
  assumes "\<not> serialPause w" and "buffer_exists w"
  shows
    "(let S0 = getSize (buffer w);
          w1 = w\<lparr>out := out w @ (if S0 = 0 then [Console Waiting_for_input] else [])
                     @ [Sleep (real (TIMEOUT_S cfg))]\<rparr>;
          w2 = conc w1;
          S1 = getSize (buffer w2);
          r = timerRun_iter cfg env conc w
      in (S1 = 0 \<longrightarrow> r = Ok w2) \<and>
         (S1 \<noteq> 0 \<and> S1 = S0 \<longrightarrow>
            r = clearBuffer cfg (renderFile cfg env (printConsole Job_complete_rendering w2)) \<and>
            converter_runs (out (final r)) = converter_runs (out w2) @ [buffer w2]) \<and>
         (S1 \<noteq> 0 \<and> S1 \<noteq> S0 \<longrightarrow>
            r = Ok (printConsole (Receiving_data S1)
                     (if S0 = 0 then printConsole Starting_job_processing w2 else w2)) \<and>
            converter_runs (out (final r)) = converter_runs (out w2))) \<and>
     (let S0 = getSize (buffer w);
          w1 = w\<lparr>out := out w @ [Gui Capture_RUNNING]
                     @ (if S0 = 0 then [Console Waiting_for_input, Gui Not_receiving] else [])
                     @ [Sleep (real (TIMEOUT_S cfg))]\<rparr>;
          w2 = conc w1;
          S1 = getSize (buffer w2);
          r = pro_timerRun_iter cfg env conc w
      in (S1 = 0 \<longrightarrow> r = Ok w2) \<and>
         (S1 \<noteq> 0 \<and> S1 = S0 \<longrightarrow>
            r = andThen (pro_renderFile cfg env (printConsole Job_complete_rendering w2))
                  (clearBuffer cfg) \<and>
            converter_runs (out (final r)) = converter_runs (out w2) @ [buffer w2]) \<and>
         (S1 \<noteq> 0 \<and> S1 \<noteq> S0 \<longrightarrow>
            r = Ok (emit (Gui (Receiving_bytes S1))
                     (printConsole (Receiving_data S1)
                       (if S0 = 0 then printConsole Starting_job_processing w2 else w2))) \<and>
            converter_runs (out (final r)) = converter_runs (out w2)))"
proof -
  let ?S0 = "getSize (buffer w)"
  let ?v = "conc (w\<lparr>out := out w @ (if ?S0 = 0 then [Console Waiting_for_input] else [])
                     @ [Sleep (real (TIMEOUT_S cfg))]\<rparr>)"
  let ?u = "conc (w\<lparr>out := out w @ [Gui Capture_RUNNING]
                     @ (if ?S0 = 0 then [Console Waiting_for_input, Gui Not_receiving] else [])
                     @ [Sleep (real (TIMEOUT_S cfg))]\<rparr>)"
  have pcl: "timerRun_iter cfg env conc w = timer_decide cfg env ?S0 ?v"
    using assms by (simp add: timerRun_iter_def timer_sleep_explicit)
  have b0: "getSize (buffer (emit (Gui Capture_RUNNING) w)) = ?S0"
    by (simp add: emit_def)
  have "pro_timerRun_iter cfg env conc w
          = pro_timer_decide cfg env (getSize (buffer (emit (Gui Capture_RUNNING) w)))
              (pro_timer_sleep cfg conc (emit (Gui Capture_RUNNING) w))"
    using assms by (simp add: pro_timerRun_iter_def Let_def emit_def)
  then have pro: "pro_timerRun_iter cfg env conc w = pro_timer_decide cfg env ?S0 ?u"
    by (simp only: b0 pro_timer_sleep_explicit)
  show ?thesis
    unfolding Let_def pcl pro
    using timer_decide_cases [of ?v cfg env ?S0] pro_timer_decide_cases [of ?u cfg env ?S0]
    by blast
qed

theorem monitor_cycle_witness:
  "\<not> serialPause (world_with [1, 2, 3]) \<and> buffer_exists (world_with [1, 2, 3]) \<and>
   timerRun_iter (default_config ''/home/user'') env_ok (\<lambda>w. w) (world_with [])
     = Ok ((world_with [])\<lparr>out := [Console Waiting_for_input, Sleep 2]\<rparr>) \<and>
   converter_runs (out (final
      (timerRun_iter (default_config ''/home/user'') env_ok (\<lambda>w. w) (world_with [1, 2, 3]))))
     = [[1, 2, 3]] \<and>
   out (final (timerRun_iter (default_config ''/home/user'') env_ok
          (\<lambda>w. w\<lparr>buffer := buffer w @ [4]\<rparr>) (world_with [1, 2, 3])))
     = [Sleep 2, Console (Receiving_data 4)] \<and>
   pro_timerRun_iter (pro_default_config ''/home/user'') env_ok (\<lambda>w. w) (world_with [])
     = Ok ((world_with [])\<lparr>out := [Gui Capture_RUNNING, Console Waiting_for_input,
                                      Gui Not_receiving, Sleep 2]\<rparr>) \<and>
   out (final (pro_timerRun_iter (pro_default_config ''/home/user'') env_ok
          (\<lambda>w. w\<lparr>buffer := buffer w @ [4]\<rparr>) (world_with [1, 2, 3])))
     = [Gui Capture_RUNNING, Sleep 2, Console (Receiving_data 4), Gui (Receiving_bytes 4)]"
proof -
  have h1: "\<not> serialPause (world_with bs)" and h2: "buffer_exists (world_with bs)" for bs
    by (simp_all add: world_with_def)
  have t: "TIMEOUT_S (default_config ''/home/user'') = 2"
          "TIMEOUT_S (pro_default_config ''/home/user'') = 2"
    by (simp_all add: default_config_def pro_default_config_def)
  show ?thesis
    using h1 h2
      monitor_cycle [OF h1 h2, of "[]" "default_config ''/home/user''" "\<lambda>w. w" env_ok]
      monitor_cycle [OF h1 h2, of "[1, 2, 3]" "default_config ''/home/user''" "\<lambda>w. w" env_ok]
      monitor_cycle [OF h1 h2, of "[1, 2, 3]" "default_config ''/home/user''"
         "\<lambda>w. w\<lparr>buffer := buffer w @ [4]\<rparr>" env_ok]
      monitor_cycle [OF h1 h2, of "[]" "pro_default_config ''/home/user''" "\<lambda>w. w" env_ok]
      monitor_cycle [OF h1 h2, of "[1, 2, 3]" "pro_default_config ''/home/user''"
         "\<lambda>w. w\<lparr>buffer := buffer w @ [4]\<rparr>" env_ok]
    by (simp add: Let_def t world_with_def getSize_def printConsole_def emit_def
        converter_runs_clearBuffer converter_runs_renderFile converter_runs_append)
qed

subsection \<open>C9: the startup commands\<close>

text \<open>
  The loop of lines 228 to 231 writes each command and then sleeps for
  \<^verbatim>\<open>COMMANDS_DELAY\<close>, in the order of the list, whenever the name \<^verbatim>\<open>logger\<close> resolves.
\<close>

lemma send_startup_in_bound:
  "''logger'' \<in> set names \<Longrightarrow>
   is_Ok (send_startup_in names d cs w) \<and>
   line (final (send_startup_in names d cs w)) = line w \<and>
   buffer (final (send_startup_in names d cs w)) = buffer w \<and>
   out (final (send_startup_in names d cs w))
     = out w @ concat (map (\<lambda>c. [Console (Sending_startup_command (strip_crlf c)),
                                   SerWrite c, Sleep d]) cs)"
  by (induction cs arbitrary: w)
     (simp_all add: name_lookup_def sleep_def emit_def printConsole_def)

text \<open>
  Claim C9, evaluated on \<^verbatim>\<open>pcl_dump.py\<close> with its own configuration, the port and the
  buffer file both opening and one byte waiting on the line. The configuration holds three
  startup commands; \<^verbatim>\<open>listenSerial\<close> ends with \<^verbatim>\<open>NameError\<close> at line 227 and nothing at all
  has happened by then: none of the three commands was written to the line and no delay
  was taken.
\<close>

theorem startup_commands_never_sent:
  "COMMANDS_STARTUP (default_config ''/home/user'')
     = [''++srqauto 1'' @ [CR, LF], ''++read'' @ [CR, LF], ''++read'' @ [CR, LF]] \<and>
   listenSerial (default_config ''/home/user'') \<lparr>serial_opens = True, dumpfile_opens = True\<rparr> n
       ((world_with [])\<lparr>line := [7]\<rparr>)
     = Raise (NameError ''logger'') ((world_with [])\<lparr>line := [7]\<rparr>) \<and>
   serial_writes (out (final (listenSerial (default_config ''/home/user'')
       \<lparr>serial_opens = True, dumpfile_opens = True\<rparr> n ((world_with [])\<lparr>line := [7]\<rparr>)))) = [] \<and>
   out (final (listenSerial (default_config ''/home/user'')
       \<lparr>serial_opens = True, dumpfile_opens = True\<rparr> n ((world_with [])\<lparr>line := [7]\<rparr>))) = []"
proof -
  have a: "\<not> SERIAL_IGNORE (default_config ''/home/user'')"
    by (simp add: default_config_def)
  have c: "COMMANDS_STARTUP (default_config ''/home/user'')
     = [''++srqauto 1'' @ [CR, LF], ''++read'' @ [CR, LF], ''++read'' @ [CR, LF]]"
    by (simp add: default_config_def)
  show ?thesis
    by (simp add: listenSerial_logger [OF a] c world_with_def)
qed

text \<open>
  The Pro variant does send the commands, from \<^verbatim>\<open>main\<close>, before its capture loop reads
  a byte; there the delay is taken before each write rather than after it.
\<close>

lemma pro_startup_commands:
  assumes "\<not> SERIAL_IGNORE cfg" and "serial_opens env" and "dumpfile_opens env"
  shows "pro_main cfg env n w
           = Ok (listen_loop n (open_dumpfile (pro_start_threads (pro_startup cfg w)))) \<and>
         out (pro_startup cfg w)
           = out w @ Console Executing_startup_commands
               # concat (map (\<lambda>c. [Sleep (COMMANDS_DELAY cfg),
                                     Console (Sending_startup_command (strip_crlf c)),
                                     SerWrite c]) (COMMANDS_STARTUP cfg)) \<and>
         serial_writes (out (pro_startup cfg w)) = serial_writes (out w) @ COMMANDS_STARTUP cfg \<and>
         line (pro_startup cfg w) = line w"
  using assms
  by (simp add: pro_main_def pro_SerialListener_init_def pro_listenSerial_def pro_startup_def
      out_pro_send_startup line_pro_send_startup serial_writes_append serial_writes_commands
      printConsole_def)

lemma pro_startup_trace:
  "out (final (pro_main (pro_default_config ''/home/user'')
          \<lparr>serial_opens = True, dumpfile_opens = True\<rparr> 1 ((world_with [])\<lparr>line := [7]\<rparr>)))
     = [Console Executing_startup_commands,
        Sleep (12 / 10), Console (Sending_startup_command ''++srqauto 1''),
        SerWrite (''++srqauto 1'' @ [CR, LF]),
        Sleep (12 / 10), Console (Sending_startup_command ''++read''),
        SerWrite (''++read'' @ [CR, LF]),
        Sleep (12 / 10), Console (Sending_startup_command ''++read''),
        SerWrite (''++read'' @ [CR, LF]),
        Console Starting_timer_thread, Console Starting_keyboard_input_thread,
        Console Starting_serial_listener_thread,
        SerRead 7, FileWrite 7, FileFlush]"
  by (simp add: pro_main_def pro_SerialListener_init_def pro_listenSerial_def pro_startup_def
      pro_start_threads_def pro_sendMessage_def pro_default_config_def default_config_def
      world_with_def open_dumpfile_def listen_iter_def read_pass_def ser_read_def dump_write_def
      dump_flush_def pwrite_def emit_def printConsole_def sleep_def strip_crlf_def CR_def LF_def)

subsection \<open>Resume while the capture loop runs\<close>

lemma listen_loop_paused: "serialPause w \<Longrightarrow> listen_loop n w = w"
  by (induction n) (simp_all add: listen_iter_def)

lemma resume_with_id: "resume_with cfg (\<lambda>w. w) v = key_r cfg v"
  by (simp add: resume_with_def key_r_def)

lemma pro_start_with_id: "pro_start_with cfg (\<lambda>w. w) v = pro_startStopSerial cfg ''start'' v"
  by (simp add: pro_start_with_def pro_startStopSerial_def)

lemma resume_with_idle_listener:
  assumes "\<not> KEEP_BUFFER cfg" and "buffer_exists v" and "serialPause v"
  shows "\<exists>w'. resume_with cfg (listen_loop n) v = Ok w' \<and> buffer w' = [] \<and>
              \<not> serialPause w' \<and> line w' = line v"
proof -
  let ?v = "printConsole R_received v"
  have e: "buffer_exists ?v" and p: "serialPause ?v" and l: "line ?v = line v"
    using assms by (simp_all add: printConsole_def)
  from clearBuffer_default [OF assms(1) e] obtain w1 where
    w1: "clearBuffer cfg ?v = Ok w1" "buffer w1 = []" "serialPause w1 = serialPause ?v"
        "line w1 = line ?v"
    by blast
  with p have "listen_loop n w1 = w1" by (simp add: listen_loop_paused)
  with w1 l show ?thesis by (simp add: resume_with_def)
qed

lemma pro_start_with_idle_listener:
  assumes "\<not> KEEP_BUFFER cfg" and "buffer_exists v" and "serialPause v"
  shows "\<exists>w'. pro_start_with cfg (listen_loop n) v = Ok w' \<and> buffer w' = [] \<and>
              \<not> serialPause w' \<and> line w' = line v"
proof -
  from clearBuffer_default [OF assms(1) assms(2)] obtain w1 where
    w1: "clearBuffer cfg v = Ok w1" "buffer w1 = []" "serialPause w1 = serialPause v"
        "line w1 = line v"
    by blast
  with assms(3) have "listen_loop n w1 = w1" by (simp add: listen_loop_paused)
  with w1 show ?thesis by (simp add: pro_start_with_def printConsole_def)
qed

subsection \<open>C5: resume after pause\<close>

text \<open>
  Claim C5, as amended. The key \<^verbatim>\<open>r\<close> (in the Pro variant \<^verbatim>\<open>startStopSerial\<close> with
  \<^verbatim>\<open>start\<close>) calls \<^verbatim>\<open>clearBuffer\<close> and then clears the pause event; \<open>resume_with\<close> and
  \<open>pro_start_with\<close> are the same code with the other threads running in between. With
  the buffer file in place and whatever it holds, in default mode: however many passes of
  the capture loop test the gate during the pause (\<open>n1\<close> of them before the key \<^verbatim>\<open>r\<close>,
  \<open>n2\<close> between the truncation and the clearing of the event), none takes a byte from the
  line, and when the event is cleared the buffer is empty. A pass that was past the gate
  test, waiting in its read, when the pause was requested is not covered by this. In
  keep-buffer mode \<^verbatim>\<open>clearBuffer\<close> returns at once: the event is cleared and the buffer
  keeps its content.
\<close>

theorem resume_after_pause:
  assumes "buffer_exists w"
  shows "key_r cfg v = resume_with cfg (\<lambda>w. w) v \<and>
         pro_startStopSerial cfg ''start'' v = pro_start_with cfg (\<lambda>w. w) v \<and>
         (\<not> KEEP_BUFFER cfg \<longrightarrow>
            (\<exists>w'. resume_with cfg (listen_loop n2) (listen_loop n1 (key_p w)) = Ok w' \<and>
                  buffer w' = [] \<and> \<not> serialPause w' \<and> line w' = line w) \<and>
            (\<exists>w'. handleInput cfg [CHR ''p'', CHR ''r''] w = Ok w' \<and>
                  buffer w' = [] \<and> \<not> serialPause w' \<and> line w' = line w) \<and>
            (\<exists>w'. pro_start_with cfg (listen_loop n2)
                    (listen_loop n1 (final (pro_startStopSerial cfg ''stop'' w))) = Ok w' \<and>
                  buffer w' = [] \<and> \<not> serialPause w' \<and> line w' = line w)) \<and>
         (KEEP_BUFFER cfg \<longrightarrow>
            handleInput cfg [CHR ''p'', CHR ''r''] w
              = Ok ((printConsole R_received (key_p w))\<lparr>serialPause := False\<rparr>) \<and>
            buffer (final (handleInput cfg [CHR ''p'', CHR ''r''] w)) = buffer w \<and>
            buffer (final (andThen (pro_startStopSerial cfg ''stop'' w)
                             (pro_startStopSerial cfg ''start''))) = buffer w)"
proof -
  have seq: "handleInput cfg [CHR ''p'', CHR ''r''] w = key_r cfg (key_p w)"
    by (cases "key_r cfg (key_p w)")
       (simp_all add: handleInput_key_p handleInput_key_r lower_p lower_r)
  have kp: "buffer_exists (key_p w)" "serialPause (key_p w)" "line (key_p w) = line w"
    using assms by (simp_all add: key_p_frame)
  have stop: "pro_startStopSerial cfg ''stop'' w
                = Ok (printConsole Pause_received_gui (w\<lparr>serialPause := True\<rparr>))"
    by (simp add: pro_startStopSerial_def)
  let ?s = "printConsole Pause_received_gui (w\<lparr>serialPause := True\<rparr>)"
  have ks: "buffer_exists ?s" "serialPause ?s" "line ?s = line w"
    using assms by (simp_all add: printConsole_def)
  have a: "\<not> KEEP_BUFFER cfg \<longrightarrow>
            (\<exists>w'. resume_with cfg (listen_loop n2) (listen_loop n1 (key_p w)) = Ok w' \<and>
                  buffer w' = [] \<and> \<not> serialPause w' \<and> line w' = line w)"
    using resume_with_idle_listener [of cfg "key_p w" n2] kp
    by (simp add: listen_loop_paused)
  have b: "\<not> KEEP_BUFFER cfg \<longrightarrow>
            (\<exists>w'. handleInput cfg [CHR ''p'', CHR ''r''] w = Ok w' \<and>
                  buffer w' = [] \<and> \<not> serialPause w' \<and> line w' = line w)"
  proof -
    have l0: "listen_loop 0 = (\<lambda>w. w)" by (rule ext) simp
    show ?thesis
      unfolding seq
      using resume_with_idle_listener [of cfg "key_p w" 0] kp
      by (simp add: resume_with_id [symmetric] l0)
  qed
  have c: "\<not> KEEP_BUFFER cfg \<longrightarrow>
            (\<exists>w'. pro_start_with cfg (listen_loop n2)
                    (listen_loop n1 (final (pro_startStopSerial cfg ''stop'' w))) = Ok w' \<and>
                  buffer w' = [] \<and> \<not> serialPause w' \<and> line w' = line w)"
    using pro_start_with_idle_listener [of cfg ?s n2] ks
    by (simp add: stop listen_loop_paused)
  have d: "KEEP_BUFFER cfg \<longrightarrow>
            handleInput cfg [CHR ''p'', CHR ''r''] w
              = Ok ((printConsole R_received (key_p w))\<lparr>serialPause := False\<rparr>) \<and>
            buffer (final (handleInput cfg [CHR ''p'', CHR ''r''] w)) = buffer w \<and>
            buffer (final (andThen (pro_startStopSerial cfg ''stop'' w)
                             (pro_startStopSerial cfg ''start''))) = buffer w"
    unfolding seq
    by (simp add: key_r_def clearBuffer_keep key_p_def printConsole_def stop
        pro_startStopSerial_def)
  have e1: "key_r cfg v = resume_with cfg (\<lambda>w. w) v"
    by (simp add: resume_with_id)
  have e2: "pro_startStopSerial cfg ''start'' v = pro_start_with cfg (\<lambda>w. w) v"
    by (simp add: pro_start_with_id)
  from a b c d e1 e2 show ?thesis
    by blast
qed

theorem resume_after_pause_witness:
  "buffer_exists ((world_with [1, 2])\<lparr>line := [3]\<rparr>) \<and>
   \<not> KEEP_BUFFER (default_config ''/home/user'') \<and>
   buffer (final (resume_with (default_config ''/home/user'') (listen_loop 3)
      (listen_loop 2 (key_p ((world_with [1, 2])\<lparr>line := [3]\<rparr>))))) = [] \<and>
   line (final (resume_with (default_config ''/home/user'') (listen_loop 3)
      (listen_loop 2 (key_p ((world_with [1, 2])\<lparr>line := [3]\<rparr>))))) = [3] \<and>
   buffer (final (handleInput (default_config ''/home/user'') [CHR ''p'', CHR ''r'']
      ((world_with [1, 2])\<lparr>line := [3]\<rparr>))) = [] \<and>
   \<not> serialPause (final (handleInput (default_config ''/home/user'') [CHR ''p'', CHR ''r'']
      ((world_with [1, 2])\<lparr>line := [3]\<rparr>))) \<and>
   KEEP_BUFFER keep_config \<and>
   buffer (final (handleInput keep_config [CHR ''p'', CHR ''r'']
      ((world_with [1, 2])\<lparr>line := [3]\<rparr>))) = [1, 2]"
proof -
  let ?w = "(world_with [1, 2])\<lparr>line := [3]\<rparr>"
  let ?c = "default_config ''/home/user''"
  have h: "buffer_exists ?w"
    by (simp add: world_with_def)
  have k: "\<not> KEEP_BUFFER ?c" "KEEP_BUFFER keep_config"
    by (simp_all add: default_config_def keep_config_def)
  have b: "buffer ?w = [1, 2]" "line ?w = [3]"
    by (simp_all add: world_with_def)
  from resume_after_pause [OF h, of ?c _ 3 2] k(1)
  have 1: "\<exists>w'. resume_with ?c (listen_loop 3) (listen_loop 2 (key_p ?w)) = Ok w' \<and>
                buffer w' = [] \<and> \<not> serialPause w' \<and> line w' = line ?w"
    by blast
  from resume_after_pause [OF h, of ?c _ 3 2] k(1)
  have 2: "\<exists>w'. handleInput ?c [CHR ''p'', CHR ''r''] ?w = Ok w' \<and>
                buffer w' = [] \<and> \<not> serialPause w' \<and> line w' = line ?w"
    by blast
  from resume_after_pause [OF h, of keep_config _ 3 2] k(2)
  have 3: "buffer (final (handleInput keep_config [CHR ''p'', CHR ''r''] ?w)) = buffer ?w"
    by blast
  from 1 b have r1: "buffer (final (resume_with ?c (listen_loop 3) (listen_loop 2 (key_p ?w)))) = [] \<and>
      line (final (resume_with ?c (listen_loop 3) (listen_loop 2 (key_p ?w)))) = [3]"
    by auto
  from 2 have r2: "buffer (final (handleInput ?c [CHR ''p'', CHR ''r''] ?w)) = [] \<and>
      \<not> serialPause (final (handleInput ?c [CHR ''p'', CHR ''r''] ?w))"
    by auto
  from 3 b have r3: "buffer (final (handleInput keep_config [CHR ''p'', CHR ''r''] ?w)) = [1, 2]"
    by simp
  from h k r1 r2 r3 show ?thesis by blast
qed

text \<open>
  The claim as stated fails in both modes, on a buffer of two bytes with a third byte
  coming. In keep-buffer mode the buffer still holds its two bytes after pause and resume,
  and the next pass adds the third: nothing truncates it. In default mode a listener that
  was waiting in its read when the pause was requested takes the third byte while the
  event is set: into the buffer that still holds the two bytes when the byte arrives
  before the key \<^verbatim>\<open>r\<close>, and into the buffer just truncated when it arrives between the
  truncation and the clearing of the event, so that the buffer is not empty when resume
  returns.
\<close>

theorem byte_accepted_without_truncation:
  "buffer (final (handleInput keep_config [CHR ''p'', CHR ''r'']
      ((world_with [1, 2])\<lparr>line := [3]\<rparr>))) = [1, 2] \<and>
   map_option buffer (listen_iter (final (handleInput keep_config [CHR ''p'', CHR ''r'']
      ((world_with [1, 2])\<lparr>line := [3]\<rparr>)))) = Some [1, 2, 3] \<and>
   serialPause (waiting_read (key_p ((world_with [1, 2])\<lparr>line := [3]\<rparr>))) \<and>
   buffer (waiting_read (key_p ((world_with [1, 2])\<lparr>line := [3]\<rparr>))) = [1, 2, 3] \<and>
   buffer (final (resume_with (default_config ''/home/user'') waiting_read
      (key_p ((world_with [1, 2])\<lparr>line := [3]\<rparr>)))) = [0, 0, 3]"
  by (simp add: handleInput_key_def lower_def key_p_def key_r_def resume_with_def clearBuffer_def
      keep_config_def default_config_def world_with_def printConsole_def getSize_def
      waiting_read_def listen_iter_def read_pass_def ser_read_def dump_write_def dump_flush_def
      pwrite_def emit_def)

subsection \<open>Passes that append\<close>




subsection \<open>C7: one pass of the capture loop\<close>




end
